theory Spec2Isabelle
  imports Complex_Main "HOL-Library.AList" "HOL-Library.Log_Nat"
begin

section \<open>suiChecker: the balance aggregation of \<^verbatim>\<open>check.py\<close>\<close>

text \<open>
  The theory embeds the functions of \<^verbatim>\<open>src/check.py\<close> as HOL functions and proves
  what they compute. Conventions of the embedding:
  \<^item> A Python float that holds a balance, a price or a value is an IEEE 754 double
    (\<open>pyfloat\<close> below): sums, products and quotients round to the nearest double, an
    overflowing sum or product is an infinity, and the division of two integers raises
    \<^verbatim>\<open>OverflowError\<close> when its result leaves the range. Clock readings are exact
    rationals.
  \<^item> A Python dict that the code iterates over is an association list with the
    update of \<^verbatim>\<open>d[k] = v\<close> (\<^const>\<open>AList.update\<close>); the two caches are maps.
  \<^item> The network is an oracle: the reply to the n-th request a thread of control
    sends, given the proxy and the request. The world records every request sent, the
    seconds slept and the two module-level caches.
  \<^item> An exception that no handler of the function catches is the left injection of
    the result.
\<close>

subsection \<open>Floating point\<close>

text \<open>
  The values of a Python float: a finite double, given by the rational number it stands
  for, the two infinities and NaN. \<^verbatim>\<open>0.0\<close> and \<^verbatim>\<open>-0.0\<close> are one value here: they
  compare equal, add and multiply alike up to the sign of a zero, and the program
  divides by no float it has computed.
\<close>

datatype pyfloat = Finite rat | PosInf | NegInf | NaN

instantiation pyfloat :: zero
begin
definition zero_pyfloat_def: "0 = Finite 0"
instance ..
end

text \<open>
  The exponent of a positive rational: the \<open>e\<close> with \<open>2\<^sup>e \<le> q < 2\<^sup>e\<^sup>+\<^sup>1\<close>. For
  \<open>q = a / b\<close> in lowest terms it is the difference of the bit lengths of \<open>a\<close> and \<open>b\<close>,
  or one less.
\<close>

definition floor_log2 :: "rat \<Rightarrow> int" where
  "floor_log2 q =
     (case quotient_of q of (a, b) \<Rightarrow>
        let e = bitlen a - bitlen b in if 2 powi e \<le> q then e else e - 1)"

text \<open>The nearest integer, a tie going to the even one.\<close>

definition round_half_even :: "rat \<Rightarrow> int" where
  "round_half_even x =
     (let f = \<lfloor>x\<rfloor>; d = x - of_int f
      in if d < 1 / 2 then f else if 1 / 2 < d then f + 1 else if even f then f else f + 1)"

text \<open>
  The double nearest to a rational, ties to even: 53 bits of precision from the exponent
  \<open>e\<close> of the number down, the exponent not below that of the subnormal numbers. The
  result is an infinity when it leaves the range, that is when its exponent passes 1023,
  by itself or by rounding up to \<open>2\<^sup>1\<^sup>0\<^sup>2\<^sup>4\<close>.
\<close>

definition rnd :: "rat \<Rightarrow> pyfloat" where
  "rnd q =
     (if q = 0 then Finite 0
      else let e = max (floor_log2 \<bar>q\<bar>) (- 1022);
               m = round_half_even (q / 2 powi (e - 52))
           in if 1023 < e \<or> (e = 1023 \<and> \<bar>m\<bar> = 2 ^ 53)
              then (if 0 < q then PosInf else NegInf)
              else Finite (of_int m * 2 powi (e - 52)))"

text \<open>\<^verbatim>\<open>x + y\<close>, \<^verbatim>\<open>-x\<close>, \<^verbatim>\<open>x * y\<close> and \<^verbatim>\<open>x > y\<close> on floats. None of them raises.\<close>

fun fadd :: "pyfloat \<Rightarrow> pyfloat \<Rightarrow> pyfloat" where
  "fadd (Finite a) (Finite b) = rnd (a + b)"
| "fadd NaN y = NaN"
| "fadd x NaN = NaN"
| "fadd PosInf NegInf = NaN"
| "fadd NegInf PosInf = NaN"
| "fadd PosInf y = PosInf"
| "fadd NegInf y = NegInf"
| "fadd (Finite a) y = y"

fun fneg :: "pyfloat \<Rightarrow> pyfloat" where
  "fneg (Finite a) = Finite (- a)"
| "fneg PosInf = NegInf"
| "fneg NegInf = PosInf"
| "fneg NaN = NaN"

fun fmul :: "pyfloat \<Rightarrow> pyfloat \<Rightarrow> pyfloat" where
  "fmul (Finite a) (Finite b) = rnd (a * b)"
| "fmul NaN y = NaN"
| "fmul x NaN = NaN"
| "fmul (Finite a) y = (if a = 0 then NaN else if 0 < a then y else fneg y)"
| "fmul x (Finite b) = (if b = 0 then NaN else if 0 < b then x else fneg x)"
| "fmul x y = (if x = y then PosInf else NegInf)"

fun fgt :: "pyfloat \<Rightarrow> pyfloat \<Rightarrow> bool" where
  "fgt (Finite a) (Finite b) = (b < a)"
| "fgt NaN y = False"
| "fgt x NaN = False"
| "fgt PosInf y = (y \<noteq> PosInf)"
| "fgt x NegInf = (x \<noteq> NegInf)"
| "fgt x y = False"

subsection \<open>Configuration\<close>

definition PRICE_CACHE_DURATION :: rat where
  "PRICE_CACHE_DURATION = 300"

text \<open>The float literal \<^verbatim>\<open>0.05\<close>.\<close>

definition MIN_TOKEN_VALUE :: pyfloat where
  "MIN_TOKEN_VALUE = rnd (5 / 100)"

definition MAX_RETRIES :: nat where
  "MAX_RETRIES = 3"

subsection \<open>Address shortening\<close>

text \<open>
  \<^verbatim>\<open>address[:n]\<close> and \<^verbatim>\<open>address[-n:]\<close> for a length \<open>n\<close> that is not negative. Python
  reads \<^verbatim>\<open>address[-0:]\<close> as \<^verbatim>\<open>address[0:]\<close>, the whole string.
\<close>

definition py_prefix :: "nat \<Rightarrow> string \<Rightarrow> string" where
  "py_prefix n s = take n s"

definition py_suffix :: "nat \<Rightarrow> string \<Rightarrow> string" where
  "py_suffix n s = (if n = 0 then s else drop (length s - n) s)"

definition shorten_address_with :: "string \<Rightarrow> nat \<Rightarrow> nat \<Rightarrow> string" where
  "shorten_address_with address prefix_len suffix_len =
     (if length address > prefix_len + suffix_len + 3
      then py_prefix prefix_len address @ ''...'' @ py_suffix suffix_len address
      else address)"

text \<open>The call with the default arguments \<^verbatim>\<open>prefix_len=5, suffix_len=3\<close>.\<close>

definition shorten_address :: "string \<Rightarrow> string" where
  "shorten_address address = shorten_address_with address 5 3"

subsection \<open>The network and the shared state\<close>

type_synonym proxy = string

text \<open>
  The requests the program sends: the three JSON-RPC methods (\<^verbatim>\<open>suix_getBalance\<close> with
  and without a coin type) and the price feed's GET with its list of identifiers.
\<close>

datatype request =
    GetCoinMetadata string
  | GetBalance string
  | GetTokenBalance string string
  | GetStakes string
  | GetPrices "string list"

text \<open>
  A decoded reply, as the expression that reads it in the requesting function sees it:
  \<^item> \<open>NoResult\<close>: the function's test for a result fails (\<^verbatim>\<open>'result' in data\<close>, for the
    metadata also \<^verbatim>\<open>data['result']\<close> being empty), so the default is taken;
  \<^item> \<open>Number n\<close>: the field read (\<^verbatim>\<open>totalBalance\<close>, \<^verbatim>\<open>decimals\<close>) converts with
    \<^verbatim>\<open>int()\<close> to \<open>n\<close>;
  \<^item> \<open>StakeList\<close>: the stakes of \<^verbatim>\<open>suix_getStakes\<close>, one list of principals per validator;
  \<^item> \<open>PriceTable\<close>: a JSON object of the price feed, listing the identifiers that carry
    a \<^verbatim>\<open>usd\<close> quote, each with the float the quote is read as (an integer quote
    stands for the float of its value; a quote that is no number, or an integer beyond
    the range of the floats, is not among the replies of the model);
  \<^item> \<open>Unreadable\<close>: reading raises an exception that is not a
    \<^verbatim>\<open>RequestException\<close> (\<^verbatim>\<open>KeyError\<close>, \<^verbatim>\<open>TypeError\<close>, \<^verbatim>\<open>ValueError\<close>), as for
    \<^verbatim>\<open>{"result": {}}\<close> answering a balance query.
\<close>

datatype body =
    NoResult
  | Number int
  | StakeList "int list list"
  | PriceTable "(string \<times> pyfloat) list"
  | Unreadable

text \<open>
  What one request gives: a \<^verbatim>\<open>RequestException\<close> that is not an HTTP error (timeout,
  refused connection), the \<^verbatim>\<open>HTTPError\<close> of \<^verbatim>\<open>raise_for_status\<close> with its status code,
  or a decoded body.
\<close>

datatype response = ConnectionError | HTTPError nat | Decoded body

type_synonym network = "nat \<Rightarrow> proxy option \<Rightarrow> request \<Rightarrow> response"

type_synonym 'v dict = "(string \<times> 'v) list"

record world =
  sent :: "(proxy option \<times> request) list"
  clock :: rat
  price_cache :: "(pyfloat dict \<times> rat) option"
  decimals_cache :: "string \<rightharpoonup> int"

text \<open>
  Exceptions that leave a function: \<open>ReadError\<close> for the exception raised while a
  reply is read, \<open>OverflowError\<close>, \<open>ZeroDivisionError\<close>, \<open>NameError\<close> and
  \<open>KeyError\<close> as in Python. \<open>FellOffEnd\<close> marks the
  end of a function body reached with no \<^verbatim>\<open>return\<close> (Python would return \<^verbatim>\<open>None\<close>);
  the lemmas named \<open>\<dots>_no_fall\<close> below show that none of the functions that send
  requests ever gives it.
\<close>

datatype error = ReadError | OverflowError | ZeroDivisionError | NameError | KeyError | FellOffEnd

text \<open>What a loop does to the function around it.\<close>

datatype 'a loop = Return 'a | Raise error | Finished

text \<open>\<^verbatim>\<open>return e\<close> for an expression \<open>e\<close> whose evaluation may raise.\<close>

definition return_value :: "error + 'a \<Rightarrow> 'a loop" where
  "return_value v = (case v of Inl e \<Rightarrow> Raise e | Inr x \<Rightarrow> Return x)"

text \<open>
  \<^verbatim>\<open>a / b\<close> on two integers: the double nearest to the quotient, and
  \<^verbatim>\<open>OverflowError\<close> when that is beyond the range. \<^verbatim>\<open>float(a)\<close>, the conversion that
  precedes an operation of an integer with a float, rounds and raises alike.
\<close>

definition int_truediv :: "int \<Rightarrow> int \<Rightarrow> error + pyfloat" where
  "int_truediv a b =
     (if b = 0 then Inl ZeroDivisionError
      else case rnd (of_int a / of_int b) of
             PosInf \<Rightarrow> Inl OverflowError
           | NegInf \<Rightarrow> Inl OverflowError
           | x \<Rightarrow> Inr x)"

definition int_to_float :: "int \<Rightarrow> error + pyfloat" where
  "int_to_float a =
     (case rnd (of_int a) of
        PosInf \<Rightarrow> Inl OverflowError
      | NegInf \<Rightarrow> Inl OverflowError
      | x \<Rightarrow> Inr x)"

text \<open>\<^verbatim>\<open>x / y\<close> on two floats: only a divisor that is zero raises.\<close>

fun float_truediv :: "pyfloat \<Rightarrow> pyfloat \<Rightarrow> error + pyfloat" where
  "float_truediv x (Finite b) =
     (if b = 0 then Inl ZeroDivisionError
      else case x of
             Finite a \<Rightarrow> Inr (rnd (a / b))
           | NaN \<Rightarrow> Inr NaN
           | _ \<Rightarrow> Inr (if 0 < b then x else fneg x))"
| "float_truediv x NaN = Inr NaN"
| "float_truediv (Finite a) y = Inr 0"
| "float_truediv x y = Inr NaN"

text \<open>
  \<^verbatim>\<open>balance / 10**decimals\<close> for an integer \<^verbatim>\<open>balance\<close>. With \<^verbatim>\<open>decimals\<close> not
  negative the power is an integer. With negative \<^verbatim>\<open>decimals\<close> Python computes the
  power as a float (the C library's \<^verbatim>\<open>pow\<close>, taken here to round correctly; it is
  \<^verbatim>\<open>0.0\<close> from \<^verbatim>\<open>10**-324\<close> on), converts the balance and divides the floats.
\<close>

definition div_power_of_ten :: "int \<Rightarrow> int \<Rightarrow> error + pyfloat" where
  "div_power_of_ten balance decimals =
     (if 0 \<le> decimals then int_truediv balance (10 ^ nat decimals)
      else case int_to_float balance of
             Inl e \<Rightarrow> Inl e
           | Inr x \<Rightarrow> float_truediv x (rnd (10 powi decimals)))"

definition sleep :: "rat \<Rightarrow> world \<Rightarrow> world" where
  "sleep seconds w = w\<lparr>clock := clock w + seconds\<rparr>"

text \<open>\<^verbatim>\<open>{'http': proxy, 'https': proxy} if proxy else None\<close>: an empty string is no proxy.\<close>

definition proxies_dict :: "proxy option \<Rightarrow> proxy option" where
  "proxies_dict proxy = (case proxy of None \<Rightarrow> None | Some p \<Rightarrow> if p = [] then None else Some p)"

definition send :: "network \<Rightarrow> proxy option \<Rightarrow> request \<Rightarrow> world \<Rightarrow> response \<times> world" where
  "send net proxy req w =
     (net (length (sent w)) (proxies_dict proxy) req, w\<lparr>sent := sent w @ [(proxies_dict proxy, req)]\<rparr>)"

text \<open>\<^verbatim>\<open>proxies or [None]\<close>\<close>

definition proxies_or_none :: "proxy list \<Rightarrow> proxy option list" where
  "proxies_or_none proxies = (if proxies = [] then [None] else map Some proxies)"

subsection \<open>Dictionaries\<close>

text \<open>\<^verbatim>\<open>{k: f(k) for k in keys}\<close> and \<^verbatim>\<open>d.get(k, default)\<close>.\<close>

definition dict_comp :: "(string \<Rightarrow> 'v) \<Rightarrow> string list \<Rightarrow> 'v dict" where
  "dict_comp f keys = fold (\<lambda>k d. AList.update k (f k) d) keys []"

definition dict_get :: "'v dict \<Rightarrow> string \<Rightarrow> 'v \<Rightarrow> 'v" where
  "dict_get d k dflt = (case map_of d k of Some v \<Rightarrow> v | None \<Rightarrow> dflt)"

subsection \<open>Token decimals\<close>

text \<open>
  The inner loop of \<^verbatim>\<open>get_token_decimals\<close> over \<^verbatim>\<open>range(MAX_RETRIES)\<close> for one proxy.
  A reply is stored in the cache and returned; a request error sleeps and goes on, and on
  the last attempt breaks (with a proxy) or runs off the end of the range (without).
\<close>

fun decimals_attempts ::
  "network \<Rightarrow> string \<Rightarrow> proxy option \<Rightarrow> nat list \<Rightarrow> world \<Rightarrow> int loop \<times> world" where
  "decimals_attempts net token_type proxy [] w = (Finished, w)"
| "decimals_attempts net token_type proxy (attempt # rest) w =
     (case send net proxy (GetCoinMetadata token_type) w of
        (Decoded data, w1) \<Rightarrow>
          (case data of
             NoResult \<Rightarrow> (Return 9, w1\<lparr>decimals_cache := (decimals_cache w1)(token_type \<mapsto> 9)\<rparr>)
           | Number decimals \<Rightarrow>
               (Return decimals, w1\<lparr>decimals_cache := (decimals_cache w1)(token_type \<mapsto> decimals)\<rparr>)
           | _ \<Rightarrow> (Raise ReadError, w1))
      | (_, w1) \<Rightarrow>
          if attempt < MAX_RETRIES - 1 then decimals_attempts net token_type proxy rest (sleep 2 w1)
          else if proxy \<noteq> None then (Finished, w1)
          else decimals_attempts net token_type proxy rest w1)"

text \<open>
  The outer loop over the proxies. The statements after the inner loop, the warning and
  \<^verbatim>\<open>return 9\<close>, are indented into the body of the outer loop: the first proxy's
  iteration always returns and the other proxies are never visited.
\<close>

fun decimals_proxies ::
  "network \<Rightarrow> string \<Rightarrow> proxy option list \<Rightarrow> world \<Rightarrow> (error + int) \<times> world" where
  "decimals_proxies net token_type [] w = (Inl FellOffEnd, w)"
| "decimals_proxies net token_type (proxy # others) w =
     (case decimals_attempts net token_type proxy [0..<MAX_RETRIES] w of
        (Return decimals, w') \<Rightarrow> (Inr decimals, w')
      | (Raise e, w') \<Rightarrow> (Inl e, w')
      | (Finished, w') \<Rightarrow> (Inr 9, w'))"

definition get_token_decimals ::
  "network \<Rightarrow> string \<Rightarrow> proxy list \<Rightarrow> world \<Rightarrow> (error + int) \<times> world" where
  "get_token_decimals net token_type proxies w =
     (case decimals_cache w token_type of
        Some decimals \<Rightarrow> (Inr decimals, w)
      | None \<Rightarrow> decimals_proxies net token_type (proxies_or_none proxies) w)"

subsection \<open>Token prices\<close>

definition symbol_to_id :: "string dict" where
  "symbol_to_id =
     [(''SUI'', ''sui''),
      (''USDC'', ''usd-coin''),
      (''USDT'', ''tether''),
      (''BUCK'', ''bucket-protocol-buck-stablecoin''),
      (''AFSUI'', ''aftermath-staked-sui''),
      (''NS'', ''suins-token''),
      (''WAL'', ''walrus-2''),
      (''CERT'', ''volo-staked-sui'')]"

text \<open>\<^verbatim>\<open>symbol.lower()\<close> on the ASCII letters.\<close>

definition lower :: "string \<Rightarrow> string" where
  "lower s =
     map (\<lambda>c. if 65 \<le> (of_char c :: nat) \<and> (of_char c :: nat) \<le> 90
              then char_of (of_char c + 32 :: nat) else c) s"

text \<open>\<^verbatim>\<open>symbol_to_id.get(symbol, symbol.lower())\<close>\<close>

definition feed_id :: "string \<Rightarrow> string" where
  "feed_id symbol = dict_get symbol_to_id symbol (lower symbol)"

text \<open>
  The price dictionary read from a reply:
  \<^verbatim>\<open>data.get(symbol_to_id.get(symbol, symbol.lower()), {}).get("usd", 0.0)\<close> per symbol.
\<close>

definition read_prices :: "(string \<times> pyfloat) list \<Rightarrow> string list \<Rightarrow> pyfloat dict" where
  "read_prices data token_symbols = dict_comp (\<lambda>symbol. dict_get data (feed_id symbol) 0) token_symbols"

text \<open>\<^verbatim>\<open>{symbol: 0.0 for symbol in token_symbols}\<close>\<close>

definition zero_prices :: "string list \<Rightarrow> pyfloat dict" where
  "zero_prices token_symbols = dict_comp (\<lambda>symbol. 0) token_symbols"

text \<open>
  The inner loop of \<^verbatim>\<open>get_token_prices\<close>. The handler of status 429 sleeps 60 seconds
  and executes \<^verbatim>\<open>continue\<close>, which takes the next value of \<^verbatim>\<open>range(MAX_RETRIES)\<close>;
  any other HTTP error returns the zero prices at once.
\<close>

fun prices_attempts ::
  "network \<Rightarrow> string list \<Rightarrow> proxy option \<Rightarrow> nat list \<Rightarrow> world \<Rightarrow> pyfloat dict loop \<times> world" where
  "prices_attempts net token_symbols proxy [] w = (Finished, w)"
| "prices_attempts net token_symbols proxy (attempt # rest) w =
     (case send net proxy (GetPrices (map feed_id token_symbols)) w of
        (Decoded data, w1) \<Rightarrow>
          (case data of
             PriceTable quotes \<Rightarrow>
               (Return (read_prices quotes token_symbols),
                w1\<lparr>price_cache := Some (read_prices quotes token_symbols, clock w1)\<rparr>)
           | _ \<Rightarrow> (Raise ReadError, w1))
      | (HTTPError status_code, w1) \<Rightarrow>
          if status_code = 429 then prices_attempts net token_symbols proxy rest (sleep 60 w1)
          else (Return (zero_prices token_symbols), w1)
      | (ConnectionError, w1) \<Rightarrow>
          if attempt < MAX_RETRIES - 1 then prices_attempts net token_symbols proxy rest (sleep 2 w1)
          else if proxy \<noteq> None then (Finished, w1)
          else prices_attempts net token_symbols proxy rest w1)"

text \<open>
  The outer loop: as in \<^verbatim>\<open>get_token_decimals\<close>, the closing \<^verbatim>\<open>return\<close> stands in the
  body of the loop over the proxies.
\<close>

fun prices_proxies ::
  "network \<Rightarrow> string list \<Rightarrow> proxy option list \<Rightarrow> world \<Rightarrow> (error + pyfloat dict) \<times> world" where
  "prices_proxies net token_symbols [] w = (Inl FellOffEnd, w)"
| "prices_proxies net token_symbols (proxy # others) w =
     (case prices_attempts net token_symbols proxy [0..<MAX_RETRIES] w of
        (Return prices, w') \<Rightarrow> (Inr prices, w')
      | (Raise e, w') \<Rightarrow> (Inl e, w')
      | (Finished, w') \<Rightarrow> (Inr (zero_prices token_symbols), w'))"

text \<open>
  \<^verbatim>\<open>price_cache\<close> holds its two keys together or not at all; \<^verbatim>\<open>time()\<close> is the clock
  of the world, which in the model only \<^verbatim>\<open>sleep\<close> advances.
\<close>

definition cache_fresh :: "world \<Rightarrow> bool" where
  "cache_fresh w =
     (case price_cache w of
        None \<Rightarrow> False
      | Some (prices, timestamp) \<Rightarrow> clock w - timestamp < PRICE_CACHE_DURATION)"

definition get_token_prices ::
  "network \<Rightarrow> string list \<Rightarrow> proxy list \<Rightarrow> world \<Rightarrow> (error + pyfloat dict) \<times> world" where
  "get_token_prices net token_symbols proxies w =
     (case price_cache w of
        None \<Rightarrow> prices_proxies net token_symbols (proxies_or_none proxies) w
      | Some (prices, timestamp) \<Rightarrow>
          if clock w - timestamp < PRICE_CACHE_DURATION then (Inr prices, w)
          else prices_proxies net token_symbols (proxies_or_none proxies) w)"

subsection \<open>Balances of one wallet\<close>

fun sui_balance_attempts ::
  "network \<Rightarrow> string \<Rightarrow> proxy option \<Rightarrow> nat list \<Rightarrow> world \<Rightarrow> pyfloat loop \<times> world" where
  "sui_balance_attempts net wallet_address proxy [] w = (Finished, w)"
| "sui_balance_attempts net wallet_address proxy (attempt # rest) w =
     (case send net proxy (GetBalance wallet_address) w of
        (Decoded data, w1) \<Rightarrow>
          (case data of
             NoResult \<Rightarrow> (Return 0, w1)
           | Number amount \<Rightarrow> (return_value (int_truediv amount (10 ^ 9)), w1)
           | _ \<Rightarrow> (Raise ReadError, w1))
      | (_, w1) \<Rightarrow>
          if attempt < MAX_RETRIES - 1
          then sui_balance_attempts net wallet_address proxy rest (sleep 2 w1)
          else (Return 0, w1))"

definition get_sui_balance ::
  "network \<Rightarrow> string \<Rightarrow> proxy option \<Rightarrow> world \<Rightarrow> (error + pyfloat) \<times> world" where
  "get_sui_balance net wallet_address proxy w =
     (case sui_balance_attempts net wallet_address proxy [0..<MAX_RETRIES] w of
        (Return balance, w') \<Rightarrow> (Inr balance, w')
      | (Raise e, w') \<Rightarrow> (Inl e, w')
      | (Finished, w') \<Rightarrow> (Inl FellOffEnd, w'))"

text \<open>
  \<^verbatim>\<open>get_staked_sui\<close> sums the principals of all stakes, as integers, and divides the
  sum; a reply without \<^verbatim>\<open>result\<close> gives the empty sum.
\<close>

fun staked_sui_attempts ::
  "network \<Rightarrow> string \<Rightarrow> proxy option \<Rightarrow> nat list \<Rightarrow> world \<Rightarrow> pyfloat loop \<times> world" where
  "staked_sui_attempts net wallet_address proxy [] w = (Finished, w)"
| "staked_sui_attempts net wallet_address proxy (attempt # rest) w =
     (case send net proxy (GetStakes wallet_address) w of
        (Decoded data, w1) \<Rightarrow>
          (case data of
             NoResult \<Rightarrow> (return_value (int_truediv 0 (10 ^ 9)), w1)
           | StakeList stakes \<Rightarrow> (return_value (int_truediv (sum_list (concat stakes)) (10 ^ 9)), w1)
           | _ \<Rightarrow> (Raise ReadError, w1))
      | (_, w1) \<Rightarrow>
          if attempt < MAX_RETRIES - 1
          then staked_sui_attempts net wallet_address proxy rest (sleep 2 w1)
          else (Return 0, w1))"

definition get_staked_sui ::
  "network \<Rightarrow> string \<Rightarrow> proxy option \<Rightarrow> world \<Rightarrow> (error + pyfloat) \<times> world" where
  "get_staked_sui net wallet_address proxy w =
     (case staked_sui_attempts net wallet_address proxy [0..<MAX_RETRIES] w of
        (Return staked, w') \<Rightarrow> (Inr staked, w')
      | (Raise e, w') \<Rightarrow> (Inl e, w')
      | (Finished, w') \<Rightarrow> (Inl FellOffEnd, w'))"

text \<open>
  \<^verbatim>\<open>get_token_balance\<close> reads the precision with \<^verbatim>\<open>decimals_cache.get(token_type, 9)\<close>,
  outside the lock, and divides the raw amount by \<^verbatim>\<open>10**decimals\<close>; the amount of
  a reply without \<^verbatim>\<open>result\<close> is the integer 0.
\<close>

fun token_balance_attempts ::
  "network \<Rightarrow> string \<Rightarrow> string \<Rightarrow> proxy option \<Rightarrow> int \<Rightarrow> nat list \<Rightarrow> world \<Rightarrow> pyfloat loop \<times> world" where
  "token_balance_attempts net wallet_address token_type proxy decimals [] w = (Finished, w)"
| "token_balance_attempts net wallet_address token_type proxy decimals (attempt # rest) w =
     (case send net proxy (GetTokenBalance wallet_address token_type) w of
        (Decoded data, w1) \<Rightarrow>
          (case data of
             NoResult \<Rightarrow> (return_value (div_power_of_ten 0 decimals), w1)
           | Number balance \<Rightarrow> (return_value (div_power_of_ten balance decimals), w1)
           | _ \<Rightarrow> (Raise ReadError, w1))
      | (_, w1) \<Rightarrow>
          if attempt < MAX_RETRIES - 1
          then token_balance_attempts net wallet_address token_type proxy decimals rest (sleep 2 w1)
          else (Return 0, w1))"

definition get_token_balance ::
  "network \<Rightarrow> string \<Rightarrow> string \<Rightarrow> proxy option \<Rightarrow> world \<Rightarrow> (error + pyfloat) \<times> world" where
  "get_token_balance net wallet_address token_type proxy w =
     (let decimals = (case decimals_cache w token_type of Some d \<Rightarrow> d | None \<Rightarrow> 9)
      in case token_balance_attempts net wallet_address token_type proxy decimals [0..<MAX_RETRIES] w of
           (Return balance, w') \<Rightarrow> (Inr balance, w')
         | (Raise e, w') \<Rightarrow> (Inl e, w')
         | (Finished, w') \<Rightarrow> (Inl FellOffEnd, w'))"

text \<open>The loop of \<^verbatim>\<open>get_all_balances\<close> that fills \<^verbatim>\<open>token_balances\<close>.\<close>

fun token_balances_loop ::
  "network \<Rightarrow> string \<Rightarrow> proxy option \<Rightarrow> string list \<Rightarrow> pyfloat dict \<Rightarrow> world
     \<Rightarrow> (error + pyfloat dict) \<times> world" where
  "token_balances_loop net wallet_address proxy [] token_balances w = (Inr token_balances, w)"
| "token_balances_loop net wallet_address proxy (token_type # rest) token_balances w =
     (case get_token_balance net wallet_address token_type proxy w of
        (Inl e, w') \<Rightarrow> (Inl e, w')
      | (Inr balance, w') \<Rightarrow>
          token_balances_loop net wallet_address proxy rest
            (AList.update token_type balance token_balances) w')"

definition get_all_balances ::
  "network \<Rightarrow> string \<Rightarrow> string list \<Rightarrow> proxy option \<Rightarrow> world
     \<Rightarrow> (error + pyfloat \<times> pyfloat \<times> pyfloat dict) \<times> world" where
  "get_all_balances net wallet_address token_types proxy w =
     (case get_sui_balance net wallet_address proxy w of
        (Inl e, w1) \<Rightarrow> (Inl e, w1)
      | (Inr sui, w1) \<Rightarrow>
          (case get_staked_sui net wallet_address proxy w1 of
             (Inl e, w2) \<Rightarrow> (Inl e, w2)
           | (Inr staked, w2) \<Rightarrow>
               (case token_balances_loop net wallet_address proxy token_types [] w2 of
                  (Inl e, w3) \<Rightarrow> (Inl e, w3)
                | (Inr balances, w3) \<Rightarrow> (Inr (sui, staked, balances), w3))))"

subsection \<open>Symbols and table cells\<close>

text \<open>
  \<^verbatim>\<open>token_type.split("::")\<close>, scanning from the left; the first argument is the part read
  so far, reversed.
\<close>

fun split_colons :: "string \<Rightarrow> string \<Rightarrow> string list" where
  "split_colons part [] = [rev part]"
| "split_colons part [c] = [rev (c # part)]"
| "split_colons part (c # d # cs) =
     (if c = CHR '':'' \<and> d = CHR '':'' then rev part # split_colons [] cs
      else split_colons (c # part) (d # cs))"

definition get_token_symbol :: "string \<Rightarrow> string" where
  "get_token_symbol token_type =
     (let parts = split_colons [] token_type
      in if length parts > 1 then last parts else token_type)"

text \<open>
  \<^verbatim>\<open>format_balance\<close> and the total value string. The model keeps the numbers of a cell;
  their rendering with two decimals (\<^verbatim>\<open>f"{balance:,.2f}"\<close>) is not part of it.
  \<open>Dash\<close> is \<^verbatim>\<open>"-"\<close>, \<open>Unpriced\<close> the balance marked as having no price,
  \<open>Valued\<close> the balance with its dollar value.
\<close>

datatype cell = Dash | Unpriced pyfloat | Valued pyfloat pyfloat

definition format_balance :: "pyfloat \<Rightarrow> pyfloat \<Rightarrow> cell" where
  "format_balance balance price =
     (if balance = 0 then Dash
      else if price = 0 then Unpriced balance
      else Valued balance (fmul balance price))"

datatype value_cell = Dollars pyfloat | PriceUnavailable

definition total_value_str :: "pyfloat \<Rightarrow> value_cell" where
  "total_value_str v = (if fgt v 0 then Dollars v else PriceUnavailable)"

subsection \<open>One wallet\<close>

record table_row =
  col_index :: nat
  col_address :: string
  col_sui :: cell
  col_staked :: cell
  col_tokens :: "cell dict"
  col_total_sui :: cell
  col_total_value :: value_cell

text \<open>The dictionary \<^verbatim>\<open>process_wallet\<close> returns, one field per key.\<close>

record wallet_result =
  index :: nat
  address :: string
  sui_balance :: pyfloat
  staked_sui :: pyfloat
  af_sui :: pyfloat
  v_sui :: pyfloat
  token_balances :: "pyfloat dict"
  formatted_balances :: "cell dict"
  total_sui :: pyfloat
  total_value :: pyfloat
  row :: table_row

text \<open>\<^verbatim>\<open>proxies[(index - 1 + attempt) % len(proxies)] if proxies else None\<close>\<close>

definition rotate_proxy :: "proxy list \<Rightarrow> nat \<Rightarrow> nat \<Rightarrow> proxy option" where
  "rotate_proxy proxies i attempt =
     (if proxies = [] then None
      else Some (proxies ! nat ((int i - 1 + int attempt) mod int (length proxies))))"

text \<open>
  \<^verbatim>\<open>sui_balance or staked_sui or any(token_balances.values())\<close>: a float is true when it
  is not zero.
\<close>

definition any_balance :: "pyfloat \<times> pyfloat \<times> pyfloat dict \<Rightarrow> bool" where
  "any_balance fetched =
     (case fetched of (sui, staked, balances) \<Rightarrow>
        sui \<noteq> 0 \<or> staked \<noteq> 0 \<or> list_ex (\<lambda>v. v \<noteq> 0) (map snd balances))"

text \<open>
  The loop of \<^verbatim>\<open>process_wallet\<close> over the proxies in rotation: it stops at the first
  fetch that shows a balance, and the statements after it use the last fetch made.
\<close>

fun fetch_attempts ::
  "network \<Rightarrow> string \<Rightarrow> nat \<Rightarrow> string list \<Rightarrow> proxy list \<Rightarrow> nat list
     \<Rightarrow> (pyfloat \<times> pyfloat \<times> pyfloat dict) option \<Rightarrow> world
     \<Rightarrow> (error + (pyfloat \<times> pyfloat \<times> pyfloat dict) option) \<times> world" where
  "fetch_attempts net wallet i token_types proxies [] fetched w = (Inr fetched, w)"
| "fetch_attempts net wallet i token_types proxies (attempt # rest) fetched w =
     (case get_all_balances net wallet token_types (rotate_proxy proxies i attempt) w of
        (Inl e, w') \<Rightarrow> (Inl e, w')
      | (Inr balances, w') \<Rightarrow>
          if any_balance balances then (Inr (Some balances), w')
          else fetch_attempts net wallet i token_types proxies rest (Some balances) w')"

text \<open>
  The loop of \<^verbatim>\<open>process_wallet\<close> over the token types. Its state is
  \<^verbatim>\<open>af_sui_balance\<close>, \<^verbatim>\<open>v_sui_balance\<close>, \<^verbatim>\<open>total_value\<close> and
  \<^verbatim>\<open>formatted_balances\<close>.
\<close>

fun token_loop ::
  "pyfloat dict \<Rightarrow> pyfloat dict \<Rightarrow> string list \<Rightarrow> pyfloat \<times> pyfloat \<times> pyfloat \<times> cell dict
     \<Rightarrow> error + pyfloat \<times> pyfloat \<times> pyfloat \<times> cell dict" where
  "token_loop prices balances [] state = Inr state"
| "token_loop prices balances (token # rest) (af, v, tv, formatted) =
     (case map_of balances token of
        None \<Rightarrow> Inl KeyError
      | Some balance \<Rightarrow>
          (let token_symbol = get_token_symbol token;
               af' = (if token_symbol = ''AFSUI'' then balance else af);
               v' = (if token_symbol \<noteq> ''AFSUI'' \<and> token_symbol = ''CERT'' then balance else v);
               tv' = (if fgt (dict_get prices token_symbol 0) 0
                      then fadd tv (fmul balance (dict_get prices token_symbol 0)) else tv);
               formatted' = AList.update token
                               (format_balance balance (dict_get prices token_symbol 0)) formatted
           in token_loop prices balances rest (af', v', tv', formatted')))"

definition process_wallet ::
  "network \<Rightarrow> string \<Rightarrow> nat \<Rightarrow> string list \<Rightarrow> proxy list \<Rightarrow> pyfloat dict \<Rightarrow> world
     \<Rightarrow> (error + wallet_result) \<times> world" where
  "process_wallet net wallet i token_types proxies prices w =
     (case fetch_attempts net wallet i token_types proxies
             [0..<(if proxies = [] then 1 else length proxies)] None w of
        (Inl e, w') \<Rightarrow> (Inl e, w')
      | (Inr None, w') \<Rightarrow> (Inl NameError, w')
      | (Inr (Some (sui, staked, balances)), w') \<Rightarrow>
          (let short_addr = shorten_address wallet;
               sui_price = dict_get prices ''SUI'' 0;
               tv0 = (if fgt sui_price 0 then fadd 0 (fmul (fadd sui staked) sui_price) else 0)
           in case token_loop prices balances token_types (0, 0, tv0, []) of
                Inl e \<Rightarrow> (Inl e, w')
              | Inr (af, v, tv, formatted) \<Rightarrow>
                  (Inr \<lparr>index = i,
                        address = short_addr,
                        sui_balance = sui,
                        staked_sui = staked,
                        af_sui = af,
                        v_sui = v,
                        token_balances = balances,
                        formatted_balances = formatted,
                        total_sui = fadd (fadd (fadd sui staked) af) v,
                        total_value = tv,
                        row = \<lparr>col_index = i,
                               col_address = short_addr,
                               col_sui = format_balance sui sui_price,
                               col_staked = format_balance staked sui_price,
                               col_tokens = formatted,
                               col_total_sui = format_balance (fadd (fadd (fadd sui staked) af) v) sui_price,
                               col_total_value = total_value_str tv\<rparr>\<rparr>,
                   w')))"

subsection \<open>The report\<close>

text \<open>The dictionary \<^verbatim>\<open>totals\<close> of \<^verbatim>\<open>main\<close>.\<close>

record totals =
  sum_sui :: pyfloat
  sum_staked :: pyfloat
  sum_af_sui :: pyfloat
  sum_v_sui :: pyfloat
  sum_tokens :: "pyfloat dict"
  sum_total_value :: pyfloat

text \<open>What the loop over the futures builds.\<close>

record collected =
  table_data :: "table_row list"
  token_balances_all :: "pyfloat list dict"
  totals :: totals

definition collected_init :: "string list \<Rightarrow> collected" where
  "collected_init token_types =
     \<lparr>table_data = [],
      token_balances_all = dict_comp (\<lambda>token. []) token_types,
      totals = \<lparr>sum_sui = 0, sum_staked = 0, sum_af_sui = 0, sum_v_sui = 0,
                sum_tokens = dict_comp (\<lambda>token. 0) token_types, sum_total_value = 0\<rparr>\<rparr>"

text \<open>
  The inner loop over the token types, for one result. Both dictionaries were built
  over \<^verbatim>\<open>token_types\<close>, so the entry it changes is there
  (\<^const>\<open>AList.map_entry\<close> changes the entry of a key). The flag tells whether the loop
  ran to its end: a \<^verbatim>\<open>KeyError\<close> of \<^verbatim>\<open>result["token_balances"][token]\<close> leaves it for
  the handler with the changes made so far.
\<close>

fun collect_tokens :: "pyfloat dict \<Rightarrow> string list \<Rightarrow> collected \<Rightarrow> bool \<times> collected" where
  "collect_tokens balances [] c = (True, c)"
| "collect_tokens balances (token # rest) c =
     (case map_of balances token of
        None \<Rightarrow> (False, c)
      | Some b \<Rightarrow>
          collect_tokens balances rest
            (c\<lparr>token_balances_all := AList.map_entry token (\<lambda>l. l @ [b]) (token_balances_all c),
               totals := (totals c)\<lparr>sum_tokens := AList.map_entry token (\<lambda>x. fadd x b) (sum_tokens (totals c))\<rparr>\<rparr>))"

text \<open>
  The body of the loop over the futures, in the order of submission. A worker that
  raised is logged by \<^verbatim>\<open>except Exception\<close> and adds nothing.
\<close>

definition collect_result :: "string list \<Rightarrow> error + wallet_result \<Rightarrow> collected \<Rightarrow> collected" where
  "collect_result token_types outcome c =
     (case outcome of
        Inl e \<Rightarrow> c
      | Inr result \<Rightarrow>
          (case collect_tokens (token_balances result) token_types
                  (c\<lparr>table_data := table_data c @ [row result]\<rparr>) of
             (False, c') \<Rightarrow> c'
           | (True, c') \<Rightarrow>
               c'\<lparr>totals := (totals c')
                    \<lparr>sum_sui := fadd (sum_sui (totals c')) (sui_balance result),
                     sum_staked := fadd (sum_staked (totals c')) (staked_sui result),
                     sum_af_sui := fadd (sum_af_sui (totals c')) (af_sui result),
                     sum_v_sui := fadd (sum_v_sui (totals c')) (v_sui result),
                     sum_total_value := fadd (sum_total_value (totals c')) (total_value result)\<rparr>\<rparr>))"

text \<open>
  The filter of the significant tokens. \<^verbatim>\<open>totals["tokens"]\<close> and
  \<^verbatim>\<open>token_balances_all\<close> have an entry for every token type of the list, so the
  defaults of the two lookups stand for no case of the code.
\<close>

definition significant :: "pyfloat dict \<Rightarrow> collected \<Rightarrow> string \<Rightarrow> bool" where
  "significant prices c token =
     (let total_balance = dict_get (sum_tokens (totals c)) token 0;
          token_value = fmul total_balance (dict_get prices (get_token_symbol token) 0);
          has_non_zero_balance = list_ex (\<lambda>balance. fgt balance 0) (dict_get (token_balances_all c) token [])
      in has_non_zero_balance \<and> fgt token_value MIN_TOKEN_VALUE)"

definition significant_tokens :: "pyfloat dict \<Rightarrow> collected \<Rightarrow> string list \<Rightarrow> string list" where
  "significant_tokens prices c token_types = filter (significant prices c) token_types"

text \<open>\<^verbatim>\<open>[d[k] for k in keys]\<close>\<close>

fun dict_items :: "'v dict \<Rightarrow> string list \<Rightarrow> error + 'v list" where
  "dict_items d [] = Inr []"
| "dict_items d (k # ks) =
     (case map_of d k of
        None \<Rightarrow> Inl KeyError
      | Some v \<Rightarrow> (case dict_items d ks of Inl e \<Rightarrow> Inl e | Inr vs \<Rightarrow> Inr (v # vs)))"

text \<open>
  A row of the printed table: a wallet's row with one cell per significant token, or
  the closing row of the totals, which starts with the number of wallets.
\<close>

datatype report_row =
    WalletRow nat string cell cell "cell list" cell value_cell
  | TotalRow nat cell cell "cell list" cell value_cell

fun final_rows :: "table_row list \<Rightarrow> string list \<Rightarrow> error + report_row list" where
  "final_rows [] tokens = Inr []"
| "final_rows (r # rest) tokens =
     (case dict_items (col_tokens r) tokens of
        Inl e \<Rightarrow> Inl e
      | Inr cells \<Rightarrow>
          (case final_rows rest tokens of
             Inl e \<Rightarrow> Inl e
           | Inr rows \<Rightarrow>
               Inr (WalletRow (col_index r) (col_address r) (col_sui r) (col_staked r) cells
                      (col_total_sui r) (col_total_value r) # rows)))"

definition total_row :: "nat \<Rightarrow> pyfloat dict \<Rightarrow> collected \<Rightarrow> string list \<Rightarrow> report_row" where
  "total_row n prices c tokens =
     (let t = totals c; sui_price = dict_get prices ''SUI'' 0
      in TotalRow n
           (format_balance (sum_sui t) sui_price)
           (format_balance (sum_staked t) sui_price)
           (map (\<lambda>token. format_balance (dict_get (sum_tokens t) token 0)
                            (dict_get prices (get_token_symbol token) 0)) tokens)
           (format_balance (fadd (fadd (fadd (sum_sui t) (sum_staked t)) (sum_af_sui t)) (sum_v_sui t)) sui_price)
           (total_value_str (sum_total_value t)))"

text \<open>The loop that fills the decimals cache before the wallets are processed.\<close>

fun warm_decimals :: "network \<Rightarrow> string list \<Rightarrow> proxy list \<Rightarrow> world \<Rightarrow> (error + unit) \<times> world" where
  "warm_decimals net [] proxies w = (Inr (), w)"
| "warm_decimals net (token # rest) proxies w =
     (case get_token_decimals net token proxies w of
        (Inl e, w') \<Rightarrow> (Inl e, w')
      | (Inr decimals, w') \<Rightarrow> warm_decimals net rest proxies w')"

text \<open>
  The workers. Each call of \<^verbatim>\<open>process_wallet\<close> runs in a thread of the pool on the
  state the warm-up left; it reads the decimals cache and writes no shared state, so
  its outcome is a function of the replies it gets itself: \<open>nets i\<close> is the network as
  the worker of wallet number \<open>i\<close> meets it. The futures are kept in the order of
  submission, \<^verbatim>\<open>enumerate(wallets, 1)\<close>.
\<close>

definition run_workers ::
  "(nat \<Rightarrow> network) \<Rightarrow> string list \<Rightarrow> string list \<Rightarrow> proxy list \<Rightarrow> pyfloat dict \<Rightarrow> world
     \<Rightarrow> (error + wallet_result) list" where
  "run_workers nets wallets token_types proxies prices w =
     map (\<lambda>(i, wallet). fst (process_wallet (nets i) wallet i token_types proxies prices w))
       (zip [1..<Suc (length wallets)] wallets)"

text \<open>
  What \<^verbatim>\<open>main\<close> prints: the message that there are no wallets, or the table, given
  here by its token columns and its rows. \<^verbatim>\<open>main\<close> is modelled from the point where
  the three files are loaded and the proxies validated.
\<close>

datatype printed = NoWallets | Report "string list" "report_row list"

text \<open>The loop over the futures, from the empty table and the zero totals.\<close>

definition collect_results :: "string list \<Rightarrow> (error + wallet_result) list \<Rightarrow> collected" where
  "collect_results token_types outcomes =
     fold (collect_result token_types) outcomes (collected_init token_types)"

definition main ::
  "network \<Rightarrow> (nat \<Rightarrow> network) \<Rightarrow> string list \<Rightarrow> string list \<Rightarrow> proxy list \<Rightarrow> world
     \<Rightarrow> (error + printed) \<times> world" where
  "main net nets wallets token_types proxies w =
     (if wallets = [] then (Inr NoWallets, w)
      else case warm_decimals net token_types proxies w of
        (Inl e, w1) \<Rightarrow> (Inl e, w1)
      | (Inr u, w1) \<Rightarrow>
          (case get_token_prices net (''SUI'' # map get_token_symbol token_types) proxies w1 of
             (Inl e, w2) \<Rightarrow> (Inl e, w2)
           | (Inr prices, w2) \<Rightarrow>
               (let c = collect_results token_types
                          (run_workers nets wallets token_types proxies prices w2);
                    tokens = significant_tokens prices c token_types
                in case final_rows (table_data c) tokens of
                     Inl e \<Rightarrow> (Inl e, w2)
                   | Inr rows \<Rightarrow>
                       (Inr (Report tokens (rows @ [total_row (length wallets) prices c tokens])), w2))))"

subsection \<open>Vocabulary of the statements\<close>

text \<open>A request that ended in a \<^verbatim>\<open>RequestException\<close>, of either kind.\<close>

definition request_error :: "response \<Rightarrow> bool" where
  "request_error r = (case r of Decoded data \<Rightarrow> False | _ \<Rightarrow> True)"

text \<open>The proxy setting of the requests that go through the first entry of \<^verbatim>\<open>proxies or [None]\<close>.\<close>

definition first_proxy :: "proxy list \<Rightarrow> proxy option" where
  "first_proxy proxies = (case proxies of [] \<Rightarrow> None | p # others \<Rightarrow> proxies_dict (Some p))"

text \<open>The reply to request number \<open>i\<close> of a metadata lookup that starts in the world \<open>w\<close>.\<close>

definition metadata_reply :: "network \<Rightarrow> world \<Rightarrow> proxy list \<Rightarrow> string \<Rightarrow> nat \<Rightarrow> response" where
  "metadata_reply net w proxies token_type i =
     net (length (sent w) + i) (first_proxy proxies) (GetCoinMetadata token_type)"

text \<open>Example inputs: the state at program start, a network that never answers, and one
  that fails a number of times and answers from then on.\<close>

definition world0 :: world where
  "world0 = \<lparr>sent = [], clock = 0, price_cache = None, decimals_cache = Map.empty\<rparr>"

definition dead_network :: network where
  "dead_network n p r = ConnectionError"

definition fails_then :: "nat \<Rightarrow> body \<Rightarrow> network" where
  "fails_then n b = (\<lambda>i p r. if i < n then ConnectionError else Decoded b)"

text \<open>The reply to request number \<open>i\<close> of a token balance query that starts in the world \<open>w\<close>.\<close>

definition balance_reply ::
  "network \<Rightarrow> world \<Rightarrow> proxy option \<Rightarrow> string \<Rightarrow> string \<Rightarrow> nat \<Rightarrow> response" where
  "balance_reply net w proxy wallet token_type i =
     net (length (sent w) + i) (proxies_dict proxy) (GetTokenBalance wallet token_type)"

text \<open>The reply to request number \<open>i\<close> of a price lookup that starts in the world \<open>w\<close>.\<close>

definition price_reply :: "network \<Rightarrow> world \<Rightarrow> proxy list \<Rightarrow> string list \<Rightarrow> nat \<Rightarrow> response" where
  "price_reply net w proxies token_symbols i =
     net (length (sent w) + i) (first_proxy proxies) (GetPrices (map feed_id token_symbols))"

text \<open>The replies after which the loop of \<^verbatim>\<open>get_token_prices\<close> goes on to its next attempt.\<close>

definition retryable :: "response \<Rightarrow> bool" where
  "retryable r = (r = ConnectionError \<or> r = HTTPError 429)"

text \<open>More example networks: status 429 a number of times and then an answer; always
  the same HTTP error.\<close>

definition rate_limited :: "nat \<Rightarrow> body \<Rightarrow> network" where
  "rate_limited n b = (\<lambda>i p r. if i < n then HTTPError 429 else Decoded b)"

definition failing_with :: "nat \<Rightarrow> network" where
  "failing_with status_code = (\<lambda>i p r. HTTPError status_code)"

text \<open>\<^verbatim>\<open>prices.get(symbol, 0.0)\<close>, and the balance a result holds for a token type.\<close>

definition price_of :: "pyfloat dict \<Rightarrow> string \<Rightarrow> pyfloat" where
  "price_of prices symbol = dict_get prices symbol 0"

definition balance_of :: "wallet_result \<Rightarrow> string \<Rightarrow> pyfloat" where
  "balance_of r token = dict_get (token_balances r) token 0"

text \<open>
  The token types of a list whose symbol has a price above 0, and those with a given
  symbol.
\<close>

definition priced :: "pyfloat dict \<Rightarrow> string list \<Rightarrow> string list" where
  "priced prices token_types =
     filter (\<lambda>token. fgt (price_of prices (get_token_symbol token)) 0) token_types"

definition with_symbol :: "string \<Rightarrow> string list \<Rightarrow> string list" where
  "with_symbol symbol token_types = filter (\<lambda>token. get_token_symbol token = symbol) token_types"

text \<open>
  A sum as the code accumulates it: from a start value, one \<^verbatim>\<open>+=\<close> per term, from left
  to right. Float addition is not associative, so the order is part of the value.
\<close>

definition accumulate :: "pyfloat \<Rightarrow> pyfloat list \<Rightarrow> pyfloat" where
  "accumulate start terms = foldl fadd start terms"

text \<open>
  What \<^verbatim>\<open>total_value\<close> holds before the loop over the token types: the value of the
  native and the staked balance together, when SUI has a price above 0.
\<close>

definition native_value :: "wallet_result \<Rightarrow> pyfloat dict \<Rightarrow> pyfloat" where
  "native_value r prices =
     (if fgt (price_of prices ''SUI'') 0
      then fadd 0 (fmul (fadd (sui_balance r) (staked_sui r)) (price_of prices ''SUI''))
      else 0)"

text \<open>An example wallet: 10 SUI, 2 SUI staked, 5 USDC, 3 AFSUI and 4 CERT, raw amounts
  with 9 decimals.\<close>

definition sample_tokens :: "string list" where
  "sample_tokens = [''0xa::coin::USDC'', ''0xb::afsui::AFSUI'', ''0xc::cert::CERT'']"

definition sample_prices :: "pyfloat dict" where
  "sample_prices = [(''SUI'', Finite 2), (''USDC'', Finite 1), (''AFSUI'', Finite 0)]"

definition sample_network :: network where
  "sample_network n p r =
     (case r of
        GetBalance a \<Rightarrow> Decoded (Number 10000000000)
      | GetStakes a \<Rightarrow> Decoded (StakeList [[2000000000]])
      | GetTokenBalance a t \<Rightarrow>
          Decoded (Number (if t = ''0xa::coin::USDC'' then 5000000000
                           else if t = ''0xb::afsui::AFSUI'' then 3000000000 else 4000000000))
      | _ \<Rightarrow> ConnectionError)"

text \<open>
  The precision \<^verbatim>\<open>get_token_balance\<close> reads from a decimals cache, and a reply that the
  function sending the request turns into its result: a request error, or a body of the
  shape the function looks for whose amount, divided by the power of ten, is a float.
\<close>

definition precision :: "(string \<rightharpoonup> int) \<Rightarrow> string \<Rightarrow> int" where
  "precision cache token_type = (case cache token_type of Some d \<Rightarrow> d | None \<Rightarrow> 9)"

fun readable :: "(string \<rightharpoonup> int) \<Rightarrow> request \<Rightarrow> response \<Rightarrow> bool" where
  "readable cache req ConnectionError = True"
| "readable cache req (HTTPError status_code) = True"
| "readable cache (GetBalance a) (Decoded data) =
     (case data of
        NoResult \<Rightarrow> True
      | Number n \<Rightarrow> \<not> isl (int_truediv n (10 ^ 9))
      | _ \<Rightarrow> False)"
| "readable cache (GetTokenBalance a t) (Decoded data) =
     (case data of
        NoResult \<Rightarrow> \<not> isl (div_power_of_ten 0 (precision cache t))
      | Number n \<Rightarrow> \<not> isl (div_power_of_ten n (precision cache t))
      | _ \<Rightarrow> False)"
| "readable cache (GetStakes a) (Decoded data) =
     (case data of
        NoResult \<Rightarrow> True
      | StakeList stakes \<Rightarrow> \<not> isl (int_truediv (sum_list (concat stakes)) (10 ^ 9))
      | _ \<Rightarrow> False)"
| "readable cache (GetCoinMetadata t) (Decoded data) =
     (case data of NoResult \<Rightarrow> True | Number n \<Rightarrow> True | _ \<Rightarrow> False)"
| "readable cache (GetPrices ids) (Decoded data) =
     (case data of PriceTable quotes \<Rightarrow> True | _ \<Rightarrow> False)"

definition all_readable :: "(string \<rightharpoonup> int) \<Rightarrow> network \<Rightarrow> bool" where
  "all_readable cache net = (\<forall>n p req. readable cache req (net n p req))"

text \<open>The results of the workers that returned, in the order of the futures.\<close>

fun returned :: "(error + wallet_result) list \<Rightarrow> wallet_result list" where
  "returned [] = []"
| "returned (Inl e # outcomes) = returned outcomes"
| "returned (Inr r # outcomes) = r # returned outcomes"

text \<open>The number and the shortened address of a wallet's row; nothing for the totals row.\<close>

fun row_key :: "report_row \<Rightarrow> (nat \<times> string) option" where
  "row_key (WalletRow i a sui staked cells tot v) = Some (i, a)"
| "row_key (TotalRow n sui staked cells tot v) = None"

text \<open>
  Networks whose balance replies cannot be turned into a balance: a result that cannot
  be read, as \<^verbatim>\<open>{"result": {}}\<close>, and an amount of \<open>10\<^sup>4\<^sup>0\<^sup>0\<close>.
\<close>

definition unreadable_network :: network where
  "unreadable_network n p r = Decoded Unreadable"

definition huge_network :: network where
  "huge_network n p r = Decoded (Number (10 ^ 400))"

text \<open>
  A price feed that quotes SUI at 2 and USDC at 1 and answers nothing else; and the
  network of a wallet that holds nothing but 0.03125 of each token (raw amount 31250000
  at 9 decimals).
\<close>

definition feed_network :: network where
  "feed_network n p r =
     (case r of
        GetPrices ids \<Rightarrow> Decoded (PriceTable [(''sui'', Finite 2), (''usd-coin'', Finite 1)])
      | _ \<Rightarrow> ConnectionError)"

definition dust_network :: network where
  "dust_network n p r =
     (case r of
        GetTokenBalance a t \<Rightarrow> Decoded (Number 31250000)
      | _ \<Rightarrow> Decoded NoResult)"

text \<open>
  The network of a wallet that holds 1 of the token type \<^verbatim>\<open>0xb::afsui::AFSUI\<close>, 2 of any
  other token type and no native coin; and of one that holds 0.1 SUI and 0.2 SUI staked.
\<close>

definition twin_network :: network where
  "twin_network n p r =
     (case r of
        GetTokenBalance a t \<Rightarrow>
          Decoded (Number (if t = ''0xb::afsui::AFSUI'' then 1000000000 else 2000000000))
      | _ \<Rightarrow> Decoded NoResult)"

definition tenths_network :: network where
  "tenths_network n p r =
     (case r of
        GetBalance a \<Rightarrow> Decoded (Number 100000000)
      | GetStakes a \<Rightarrow> Decoded (StakeList [[200000000]])
      | _ \<Rightarrow> Decoded NoResult)"

section \<open>Properties\<close>

subsection \<open>C7: address shortening\<close>

text \<open>
  C7, as the code has it: an address of more than 11 characters (prefix 5, suffix 3 and
  the 3 characters of the ellipsis) is shortened to its first 5 characters, three dots
  and its last 3 characters; an address of at most 11 characters is returned unchanged.
\<close>

theorem shorten_address_threshold:
  "shorten_address wallet =
     (if length wallet > 11
      then take 5 wallet @ ''...'' @ drop (length wallet - 3) wallet
      else wallet)"
  by (simp add: shorten_address_def shorten_address_with_def py_prefix_def py_suffix_def)

theorem shorten_address_threshold_witness:
  "shorten_address ''0x1234567890abcdef'' = ''0x123...def''
   \<and> shorten_address ''0x123456789'' = ''0x123456789''"
  using shorten_address_threshold [of "''0x1234567890abcdef''"]
    shorten_address_threshold [of "''0x123456789''"]
  by simp

text \<open>
  The claim as stated puts the threshold at 8 characters. An address of 9 characters
  exceeds it and is returned whole.
\<close>

theorem shorten_address_nine_chars_counterexample:
  "length ''0x1234567'' > 5 + 3
   \<and> shorten_address ''0x1234567'' = ''0x1234567''
   \<and> shorten_address ''0x1234567'' \<noteq> take 5 ''0x1234567'' @ ''...'' @ drop (length ''0x1234567'' - 3) ''0x1234567''"
  by (simp add: shorten_address_def shorten_address_with_def py_prefix_def py_suffix_def)

subsection \<open>The retry loops\<close>

lemma upt3: "[0..<3] = [0, 1, 2::nat]"
  by (simp add: upt_rec)

lemma proxies_or_none_first:
  "\<exists>p others. proxies_or_none proxies = p # others \<and> proxies_dict p = first_proxy proxies"
  by (cases proxies) (simp_all add: proxies_or_none_def first_proxy_def proxies_dict_def)

lemma get_token_decimals_hit:
  "decimals_cache w token_type = Some d \<Longrightarrow> get_token_decimals net token_type proxies w = (Inr d, w)"
  by (simp add: get_token_decimals_def)

lemma get_token_decimals_fail:
  assumes "decimals_cache w t = None"
    and "\<forall>i<MAX_RETRIES. request_error (metadata_reply net w proxies t i)"
  shows "get_token_decimals net t proxies w =
           (Inr 9, w\<lparr>sent := sent w @ replicate 3 (first_proxy proxies, GetCoinMetadata t),
                     clock := clock w + 4\<rparr>)"
proof -
  obtain p others where po: "proxies_or_none proxies = p # others" "proxies_dict p = first_proxy proxies"
    using proxies_or_none_first by blast
  let ?r = "\<lambda>i. net (length (sent w) + i) (first_proxy proxies) (GetCoinMetadata t)"
  have e: "request_error (?r 0)" "request_error (?r 1)" "request_error (?r 2)"
    using assms(2)[rule_format, of 0] assms(2)[rule_format, of 1] assms(2)[rule_format, of 2]
    by (simp_all add: MAX_RETRIES_def metadata_reply_def)
  show ?thesis
    using e assms(1)
    by (auto simp: get_token_decimals_def po upt3 numeral_3_eq_3 send_def sleep_def
          request_error_def MAX_RETRIES_def split: response.splits)
qed

lemma get_token_decimals_miss_sends:
  assumes "decimals_cache w t = None"
  shows "sent (snd (get_token_decimals net t proxies w)) \<noteq> sent w"
proof -
  obtain p others where po: "proxies_or_none proxies = p # others" "proxies_dict p = first_proxy proxies"
    using proxies_or_none_first by blast
  have "length (sent (snd (get_token_decimals net t proxies w))) > length (sent w)"
    using assms
    by (auto simp: get_token_decimals_def po upt3 numeral_3_eq_3 send_def sleep_def MAX_RETRIES_def
          split: response.splits body.splits)
  then show ?thesis by auto
qed

lemma get_token_decimals_success:
  assumes "decimals_cache w t = None"
    and "k < MAX_RETRIES"
    and "\<forall>i<k. request_error (metadata_reply net w proxies t i)"
    and "metadata_reply net w proxies t k = Decoded b"
    and "b = Number d \<or> b = NoResult \<and> d = 9"
  shows "\<exists>w'. get_token_decimals net t proxies w = (Inr d, w')
            \<and> decimals_cache w' = (decimals_cache w)(t \<mapsto> d)
            \<and> sent w' = sent w @ replicate (Suc k) (first_proxy proxies, GetCoinMetadata t)"
proof -
  obtain p others where po: "proxies_or_none proxies = p # others" "proxies_dict p = first_proxy proxies"
    using proxies_or_none_first by blast
  let ?r = "\<lambda>i. net (length (sent w) + i) (first_proxy proxies) (GetCoinMetadata t)"
  have "k = 0 \<or> k = 1 \<or> k = 2" using assms(2) unfolding MAX_RETRIES_def by arith
  then consider "k = 0" | "k = 1" | "k = 2" by blast
  then show ?thesis
  proof cases
    case 1
    then show ?thesis using assms(1,4,5)
      by (auto simp: get_token_decimals_def po upt3 numeral_3_eq_3 send_def sleep_def
            metadata_reply_def MAX_RETRIES_def)
  next
    case 2
    then have "request_error (?r 0)"
      using assms(3)[rule_format, of 0] by (simp add: metadata_reply_def)
    then show ?thesis using assms(1,4,5) 2
      by (auto simp: get_token_decimals_def po upt3 numeral_3_eq_3 send_def sleep_def
            metadata_reply_def request_error_def MAX_RETRIES_def split: response.splits)
  next
    case 3
    then have "request_error (?r 0)" "request_error (?r 1)"
      using assms(3)[rule_format, of 0] assms(3)[rule_format, of 1]
      by (simp_all add: metadata_reply_def)
    then show ?thesis using assms(1,4,5) 3
      by (auto simp: get_token_decimals_def po upt3 numeral_3_eq_3 send_def sleep_def
            metadata_reply_def request_error_def MAX_RETRIES_def split: response.splits)
  qed
qed

subsection \<open>C1: what the decimals cache remembers\<close>

text \<open>
  C1, as the code has it. Let the cache hold no entry for the token type.
  \<^item> If the three attempts all end in a request error, \<^verbatim>\<open>get_token_decimals\<close> returns 9
    after three requests and leaves the decimals cache as it was: the fallback is not
    stored, and the same call on the resulting state sends requests again, whatever the
    network answers then.
  \<^item> If an attempt is answered, the value read from the reply (9 for a reply without a
    result) is returned and stored, and every later call for the token type returns it
    without a request.
\<close>

theorem get_token_decimals_fallback_not_stored:
  "decimals_cache w token_type = None \<Longrightarrow>
   ((\<forall>i<MAX_RETRIES. request_error (metadata_reply net w proxies token_type i)) \<longrightarrow>
      (\<exists>w'. get_token_decimals net token_type proxies w = (Inr 9, w')
          \<and> decimals_cache w' = decimals_cache w
          \<and> length (sent w') = length (sent w) + MAX_RETRIES
          \<and> (\<forall>net'. sent (snd (get_token_decimals net' token_type proxies w')) \<noteq> sent w')))
   \<and> (\<forall>k b d. k < MAX_RETRIES
          \<and> (\<forall>i<k. request_error (metadata_reply net w proxies token_type i))
          \<and> metadata_reply net w proxies token_type k = Decoded b
          \<and> (b = Number d \<or> b = NoResult \<and> d = 9) \<longrightarrow>
      (\<exists>w'. get_token_decimals net token_type proxies w = (Inr d, w')
          \<and> decimals_cache w' token_type = Some d
          \<and> (\<forall>net'. get_token_decimals net' token_type proxies w' = (Inr d, w'))))"
proof (intro conjI impI allI)
  assume miss: "decimals_cache w token_type = None"
    and fail: "\<forall>i<MAX_RETRIES. request_error (metadata_reply net w proxies token_type i)"
  let ?w' = "w\<lparr>sent := sent w @ replicate 3 (first_proxy proxies, GetCoinMetadata token_type),
                clock := clock w + 4\<rparr>"
  have run: "get_token_decimals net token_type proxies w = (Inr 9, ?w')"
    using get_token_decimals_fail [OF miss fail] .
  have "decimals_cache ?w' token_type = None" using miss by simp
  then have "\<forall>net'. sent (snd (get_token_decimals net' token_type proxies ?w')) \<noteq> sent ?w'"
    using get_token_decimals_miss_sends by blast
  then show "\<exists>w'. get_token_decimals net token_type proxies w = (Inr 9, w')
          \<and> decimals_cache w' = decimals_cache w
          \<and> length (sent w') = length (sent w) + MAX_RETRIES
          \<and> (\<forall>net'. sent (snd (get_token_decimals net' token_type proxies w')) \<noteq> sent w')"
    using run by (intro exI [of _ ?w']) (simp add: MAX_RETRIES_def)
next
  fix k b d
  assume miss: "decimals_cache w token_type = None"
    and ok: "k < MAX_RETRIES
          \<and> (\<forall>i<k. request_error (metadata_reply net w proxies token_type i))
          \<and> metadata_reply net w proxies token_type k = Decoded b
          \<and> (b = Number d \<or> b = NoResult \<and> d = 9)"
  obtain w' where w': "get_token_decimals net token_type proxies w = (Inr d, w')"
      "decimals_cache w' = (decimals_cache w)(token_type \<mapsto> d)"
    using get_token_decimals_success [of w token_type k net proxies b d] miss ok by blast
  then have "decimals_cache w' token_type = Some d" by simp
  then show "\<exists>w'. get_token_decimals net token_type proxies w = (Inr d, w')
          \<and> decimals_cache w' token_type = Some d
          \<and> (\<forall>net'. get_token_decimals net' token_type proxies w' = (Inr d, w'))"
    using w'(1) get_token_decimals_hit by blast
qed

theorem get_token_decimals_fallback_not_stored_witness:
  "(\<exists>w'. get_token_decimals dead_network ''T'' [] world0 = (Inr 9, w')
        \<and> decimals_cache w' = decimals_cache world0
        \<and> length (sent w') = length (sent world0) + MAX_RETRIES
        \<and> (\<forall>net'. sent (snd (get_token_decimals net' ''T'' [] w')) \<noteq> sent w'))
   \<and> (\<exists>w'. get_token_decimals (fails_then 1 (Number 6)) ''T'' [] world0 = (Inr 6, w')
        \<and> decimals_cache w' ''T'' = Some 6
        \<and> (\<forall>net'. get_token_decimals net' ''T'' [] w' = (Inr 6, w')))"
proof -
  have miss: "decimals_cache world0 ''T'' = None"
    by (simp add: world0_def)
  have fail: "\<forall>i<MAX_RETRIES. request_error (metadata_reply dead_network world0 [] ''T'' i)"
    by (simp add: metadata_reply_def dead_network_def request_error_def)
  have ok: "(1::nat) < MAX_RETRIES
      \<and> (\<forall>i<1. request_error (metadata_reply (fails_then 1 (Number 6)) world0 [] ''T'' i))
      \<and> metadata_reply (fails_then 1 (Number 6)) world0 [] ''T'' 1 = Decoded (Number 6)
      \<and> (Number 6 = Number 6 \<or> Number 6 = NoResult \<and> (6::int) = 9)"
    by (simp add: MAX_RETRIES_def metadata_reply_def fails_then_def request_error_def world0_def)
  show ?thesis
    using get_token_decimals_fallback_not_stored [OF miss, of dead_network "[]"] fail
      get_token_decimals_fallback_not_stored [OF miss, of "fails_then 1 (Number 6)" "[]"] ok
    by blast
qed

text \<open>
  The claim as stated has the fallback stored and no second lookup. With a network that
  never answers, the first call returns 9, the cache still has no entry for the token
  type, and the second call sends three requests more.
\<close>

theorem get_token_decimals_fallback_counterexample:
  "fst (get_token_decimals dead_network ''T'' [] world0) = Inr 9
   \<and> decimals_cache (snd (get_token_decimals dead_network ''T'' [] world0)) ''T'' = None
   \<and> length (sent (snd (get_token_decimals dead_network ''T'' []
                          (snd (get_token_decimals dead_network ''T'' [] world0))))) = 6"
  by (simp add: get_token_decimals_def proxies_or_none_def upt3 MAX_RETRIES_def send_def
        sleep_def proxies_dict_def dead_network_def world0_def numeral_3_eq_3)

subsection \<open>C2: the loop over the proxies\<close>

text \<open>
  C2 at two proxies and a network that fails three times and answers from the fourth
  request on: \<open>3 < MAX_RETRIES * max 1 2\<close>, so the claim has the call succeed. Both
  functions give up after the three attempts through the first proxy: the decimals are
  the fallback 9 and not the 6 of the reply, the prices are zero, nothing is cached, and
  no request goes through the second proxy.
\<close>

theorem second_proxy_never_tried:
  "3 < MAX_RETRIES * max 1 (length [''p1'', ''p2''])
   \<and> get_token_decimals (fails_then 3 (Number 6)) ''T'' [''p1'', ''p2''] world0
       = (Inr 9, world0\<lparr>sent := replicate 3 (Some ''p1'', GetCoinMetadata ''T''), clock := 4\<rparr>)
   \<and> get_token_prices (fails_then 3 (PriceTable [(''sui'', Finite 2)])) [''SUI''] [''p1'', ''p2''] world0
       = (Inr [(''SUI'', 0)],
          world0\<lparr>sent := replicate 3 (Some ''p1'', GetPrices [''sui'']), clock := 4\<rparr>)"
  by (simp add: get_token_decimals_def get_token_prices_def proxies_or_none_def upt3
        MAX_RETRIES_def send_def sleep_def proxies_dict_def fails_then_def world0_def
        numeral_3_eq_3 zero_prices_def dict_comp_def feed_id_def dict_get_def symbol_to_id_def)

subsection \<open>C9: the precision of a token that is not in the cache\<close>

lemma token_balance_attempts_frame:
  "token_balance_attempts net wa t p d attempts w = (r, w') \<Longrightarrow>
     \<exists>n\<le>length attempts. sent w' = sent w @ replicate n (proxies_dict p, GetTokenBalance wa t)
        \<and> decimals_cache w' = decimals_cache w \<and> price_cache w' = price_cache w"
proof (induction attempts arbitrary: w)
  case Nil
  then show ?case by auto
next
  case (Cons attempt rest)
  let ?x = "(proxies_dict p, GetTokenBalance wa t)"
  let ?w1 = "w\<lparr>sent := sent w @ [?x]\<rparr>"
  show ?case
  proof (cases "token_balance_attempts net wa t p d (attempt # rest) w
                  = token_balance_attempts net wa t p d rest (sleep 2 ?w1)")
    case True
    then obtain n where n: "n \<le> length rest"
      "sent w' = sent (sleep 2 ?w1) @ replicate n ?x"
      "decimals_cache w' = decimals_cache (sleep 2 ?w1)" "price_cache w' = price_cache (sleep 2 ?w1)"
      using Cons.IH [of "sleep 2 ?w1"] Cons.prems by auto
    then have "sent w' = sent w @ replicate (Suc n) ?x"
      by (simp add: sleep_def replicate_app_Cons_same)
    then show ?thesis using n by (intro exI [of _ "Suc n"]) (simp add: sleep_def)
  next
    case False
    then have "sent w' = sent w @ replicate (Suc 0) ?x \<and> decimals_cache w' = decimals_cache w
        \<and> price_cache w' = price_cache w"
      using Cons.prems
      by (auto simp: send_def split: response.splits body.splits if_splits)
    then show ?thesis by (intro exI [of _ "Suc 0"]) simp
  qed
qed

lemma get_token_balance_frame:
  "get_token_balance net wa t p w = (r, w') \<Longrightarrow>
     \<exists>n\<le>MAX_RETRIES. sent w' = sent w @ replicate n (proxies_dict p, GetTokenBalance wa t)
        \<and> decimals_cache w' = decimals_cache w \<and> price_cache w' = price_cache w"
  using token_balance_attempts_frame [of net wa t p _ "[0..<MAX_RETRIES]" w _ w']
  by (auto simp: get_token_balance_def Let_def split: prod.splits loop.splits)

lemma get_token_balance_reply:
  assumes "k < MAX_RETRIES"
    and "\<forall>i<k. request_error (balance_reply net w proxy wallet t i)"
    and "balance_reply net w proxy wallet t k = Decoded (Number raw)"
  shows "fst (get_token_balance net wallet t proxy w)
           = div_power_of_ten raw (case decimals_cache w t of Some d \<Rightarrow> d | None \<Rightarrow> 9)"
proof -
  let ?r = "\<lambda>i. net (length (sent w) + i) (proxies_dict proxy) (GetTokenBalance wallet t)"
  have "k = 0 \<or> k = 1 \<or> k = 2" using assms(1) unfolding MAX_RETRIES_def by arith
  then consider "k = 0" | "k = 1" | "k = 2" by blast
  then show ?thesis
  proof cases
    case 1
    then show ?thesis using assms(3)
      by (auto simp: get_token_balance_def upt3 numeral_3_eq_3 send_def sleep_def
            balance_reply_def MAX_RETRIES_def return_value_def split: sum.splits)
  next
    case 2
    then have "request_error (?r 0)"
      using assms(2)[rule_format, of 0] by (simp add: balance_reply_def)
    then show ?thesis using assms(3) 2
      by (auto simp: get_token_balance_def upt3 numeral_3_eq_3 send_def sleep_def
            balance_reply_def request_error_def MAX_RETRIES_def return_value_def
          split: response.splits sum.splits)
  next
    case 3
    then have "request_error (?r 0)" "request_error (?r 1)"
      using assms(2)[rule_format, of 0] assms(2)[rule_format, of 1]
      by (simp_all add: balance_reply_def)
    then show ?thesis using assms(3) 3
      by (auto simp: get_token_balance_def upt3 numeral_3_eq_3 send_def sleep_def
            balance_reply_def request_error_def MAX_RETRIES_def return_value_def
          split: response.splits sum.splits)
  qed
qed

text \<open>
  C9: when the decimals cache has no entry for the token type, \<^verbatim>\<open>get_token_balance\<close>
  \<^item> sends nothing but its own balance request, at most \<open>MAX_RETRIES\<close> times: no metadata
    lookup;
  \<^item> leaves the decimals cache as it was;
  \<^item> divides the raw amount of the first reply by \<open>10\<^sup>9\<close>: the result is the value
    of \<^verbatim>\<open>raw / 10**9\<close>, the nearest float, or the \<^verbatim>\<open>OverflowError\<close> of that division.
\<close>

theorem get_token_balance_default_precision:
  "decimals_cache w token_type = None \<Longrightarrow>
   (\<exists>n\<le>MAX_RETRIES. sent (snd (get_token_balance net wallet token_type proxy w))
        = sent w @ replicate n (proxies_dict proxy, GetTokenBalance wallet token_type))
   \<and> decimals_cache (snd (get_token_balance net wallet token_type proxy w)) = decimals_cache w
   \<and> (\<forall>k raw. k < MAX_RETRIES
         \<and> (\<forall>i<k. request_error (balance_reply net w proxy wallet token_type i))
         \<and> balance_reply net w proxy wallet token_type k = Decoded (Number raw) \<longrightarrow>
       fst (get_token_balance net wallet token_type proxy w) = int_truediv raw (10 ^ 9))"
proof (intro conjI allI impI)
  obtain r w' where run: "get_token_balance net wallet token_type proxy w = (r, w')"
    by (cases "get_token_balance net wallet token_type proxy w")
  from get_token_balance_frame [OF run]
  show "\<exists>n\<le>MAX_RETRIES. sent (snd (get_token_balance net wallet token_type proxy w))
        = sent w @ replicate n (proxies_dict proxy, GetTokenBalance wallet token_type)"
    and "decimals_cache (snd (get_token_balance net wallet token_type proxy w)) = decimals_cache w"
    using run by auto
next
  fix k raw
  assume "decimals_cache w token_type = None"
    and "k < MAX_RETRIES
         \<and> (\<forall>i<k. request_error (balance_reply net w proxy wallet token_type i))
         \<and> balance_reply net w proxy wallet token_type k = Decoded (Number raw)"
  then show "fst (get_token_balance net wallet token_type proxy w) = int_truediv raw (10 ^ 9)"
    using get_token_balance_reply [of k net w proxy wallet token_type raw]
    by (simp add: div_power_of_ten_def)
qed

theorem get_token_balance_default_precision_witness:
  "fst (get_token_balance (fails_then 1 (Number 1500000000)) ''0xa'' ''T'' None world0)
     = Inr (Finite (3 / 2))
   \<and> decimals_cache (snd (get_token_balance (fails_then 1 (Number 1500000000)) ''0xa'' ''T'' None world0))
       = decimals_cache world0"
proof -
  have miss: "decimals_cache world0 ''T'' = None"
    by (simp add: world0_def)
  have reply: "(1::nat) < MAX_RETRIES
     \<and> (\<forall>i<1. request_error (balance_reply (fails_then 1 (Number 1500000000)) world0 None ''0xa'' ''T'' i))
     \<and> balance_reply (fails_then 1 (Number 1500000000)) world0 None ''0xa'' ''T'' 1
         = Decoded (Number 1500000000)"
    by (simp add: MAX_RETRIES_def balance_reply_def fails_then_def request_error_def world0_def)
  have quotient: "int_truediv 1500000000 (10 ^ 9) = Inr (Finite (3 / 2))"
    by code_simp
  have "fst (get_token_balance (fails_then 1 (Number 1500000000)) ''0xa'' ''T'' None world0)
          = int_truediv 1500000000 (10 ^ 9)"
    using get_token_balance_default_precision
            [OF miss, of "fails_then 1 (Number 1500000000)" "''0xa''" None] reply
    by blast
  moreover have "decimals_cache (snd (get_token_balance (fails_then 1 (Number 1500000000)) ''0xa'' ''T'' None world0))
       = decimals_cache world0"
    using get_token_balance_default_precision
            [OF miss, of "fails_then 1 (Number 1500000000)" "''0xa''" None]
    by blast
  ultimately show ?thesis by (simp only: quotient simp_thms)
qed

subsection \<open>The price lookup\<close>

lemma map_of_fold_update:
  "map_of (fold (\<lambda>k d. AList.update k (f k) d) keys d0) k
     = (if k \<in> set keys then Some (f k) else map_of d0 k)"
  by (induction keys arbitrary: d0) (auto simp: update_conv')

lemma map_of_dict_comp:
  "map_of (dict_comp f keys) k = (if k \<in> set keys then Some (f k) else None)"
  by (simp add: dict_comp_def map_of_fold_update)

lemma get_token_prices_miss:
  "\<not> cache_fresh w \<Longrightarrow>
   get_token_prices net token_symbols proxies w
     = prices_proxies net token_symbols (proxies_or_none proxies) w"
  by (auto simp: get_token_prices_def cache_fresh_def split: option.splits)

lemma stale_stays_stale:
  "\<not> cache_fresh w \<Longrightarrow> price_cache w' = price_cache w \<Longrightarrow> clock w \<le> clock w' \<Longrightarrow> \<not> cache_fresh w'"
  by (auto simp: cache_fresh_def split: option.splits)

lemma prices_attempts_sent_mono:
  "length (sent w) \<le> length (sent (snd (prices_attempts net ts p attempts w)))"
proof (induction attempts arbitrary: w)
  case Nil
  show ?case by simp
next
  case (Cons a rest)
  let ?w1 = "w\<lparr>sent := sent w @ [(proxies_dict p, GetPrices (map feed_id ts))]\<rparr>"
  show ?case
    using Cons.IH [of "sleep 60 ?w1"] Cons.IH [of "sleep 2 ?w1"] Cons.IH [of ?w1]
    by (auto simp: send_def sleep_def split: response.splits body.splits)
qed

lemma prices_attempts_cons_sends:
  "length (sent w) < length (sent (snd (prices_attempts net ts p (a # rest) w)))"
proof -
  let ?w1 = "w\<lparr>sent := sent w @ [(proxies_dict p, GetPrices (map feed_id ts))]\<rparr>"
  show ?thesis
    using prices_attempts_sent_mono [of "sleep 60 ?w1" net ts p rest]
      prices_attempts_sent_mono [of "sleep 2 ?w1" net ts p rest]
      prices_attempts_sent_mono [of ?w1 net ts p rest]
    by (auto simp: send_def sleep_def split: response.splits body.splits)
qed

lemma prices_proxies_snd:
  "snd (prices_proxies net ts (p # others) w) = snd (prices_attempts net ts p [0..<MAX_RETRIES] w)"
  by (simp del: prices_attempts.simps split: prod.splits loop.splits)

lemma get_token_prices_miss_sends:
  assumes "\<not> cache_fresh w"
  shows "sent (snd (get_token_prices net token_symbols proxies w)) \<noteq> sent w"
proof -
  obtain p others where po: "proxies_or_none proxies = p # others"
    using proxies_or_none_first by blast
  have "[0..<MAX_RETRIES] = 0 # [1, 2]"
    by (simp add: MAX_RETRIES_def upt3)
  then have "length (sent (snd (get_token_prices net token_symbols proxies w))) > length (sent w)"
    using prices_attempts_cons_sends [of w net token_symbols p 0 "[1, 2]"]
    by (simp only: get_token_prices_miss [OF assms] po prices_proxies_snd)
  then show ?thesis by auto
qed

lemma get_token_prices_fail:
  assumes "\<not> cache_fresh w"
    and "k \<le> MAX_RETRIES"
    and "\<forall>i<k. retryable (price_reply net w proxies token_symbols i)"
    and "k < MAX_RETRIES \<longrightarrow> (\<exists>c. c \<noteq> 429 \<and> price_reply net w proxies token_symbols k = HTTPError c)"
  shows "\<exists>w'. get_token_prices net token_symbols proxies w = (Inr (zero_prices token_symbols), w')
           \<and> price_cache w' = price_cache w \<and> decimals_cache w' = decimals_cache w \<and> clock w \<le> clock w'"
proof -
  obtain p others where po: "proxies_or_none proxies = p # others" "proxies_dict p = first_proxy proxies"
    using proxies_or_none_first by blast
  let ?r = "\<lambda>i. net (length (sent w) + i) (first_proxy proxies) (GetPrices (map feed_id token_symbols))"
  have "k = 0 \<or> k = 1 \<or> k = 2 \<or> k = 3" using assms(2) unfolding MAX_RETRIES_def by arith
  then consider "k = 0" | "k = 1" | "k = 2" | "k = 3" by blast
  then show ?thesis
  proof cases
    case 1
    then show ?thesis using assms(4)
      by (auto simp: get_token_prices_miss [OF assms(1)] po upt3 numeral_3_eq_3 send_def sleep_def
            price_reply_def MAX_RETRIES_def)
  next
    case 2
    then have "retryable (?r 0)"
      using assms(3)[rule_format, of 0] by (simp add: price_reply_def)
    then show ?thesis using assms(4) 2
      by (auto simp: get_token_prices_miss [OF assms(1)] po upt3 numeral_3_eq_3 send_def sleep_def
            price_reply_def MAX_RETRIES_def retryable_def)
  next
    case 3
    then have "retryable (?r 0)" "retryable (?r 1)"
      using assms(3)[rule_format, of 0] assms(3)[rule_format, of 1]
      by (simp_all add: price_reply_def)
    then show ?thesis using assms(4) 3
      by (auto simp: get_token_prices_miss [OF assms(1)] po upt3 numeral_3_eq_3 send_def sleep_def
            price_reply_def MAX_RETRIES_def retryable_def)
  next
    case 4
    then have "retryable (?r 0)" "retryable (?r 1)" "retryable (?r 2)"
      using assms(3)[rule_format, of 0] assms(3)[rule_format, of 1] assms(3)[rule_format, of 2]
      by (simp_all add: price_reply_def)
    then show ?thesis
      by (auto simp: get_token_prices_miss [OF assms(1)] po upt3 numeral_3_eq_3 send_def sleep_def
            price_reply_def MAX_RETRIES_def retryable_def)
  qed
qed

subsection \<open>C3: status 429\<close>

text \<open>
  What the loop does with status 429. Let the price cache be stale or empty, let the
  first \<open>k\<close> requests be answered with status 429 and the next one with a price table.
  The handler sleeps 60 seconds and executes \<^verbatim>\<open>continue\<close>, which takes the next value of
  \<^verbatim>\<open>range(MAX_RETRIES)\<close>: for \<open>k < MAX_RETRIES\<close> the call returns the prices read from
  the table, after \<open>k + 1\<close> requests and \<open>60 k\<close> seconds; for \<open>k \<ge> MAX_RETRIES\<close> the
  range is used up with the third 429.
\<close>

lemma rate_limit_uses_attempts:
  assumes "\<not> cache_fresh w"
    and "\<forall>i<k. price_reply net w proxies token_symbols i = HTTPError 429"
    and "price_reply net w proxies token_symbols k = Decoded (PriceTable quotes)"
  shows "get_token_prices net token_symbols proxies w =
     (if k < MAX_RETRIES
      then (Inr (read_prices quotes token_symbols),
            w\<lparr>sent := sent w @ replicate (Suc k) (first_proxy proxies, GetPrices (map feed_id token_symbols)),
              clock := clock w + 60 * of_nat k,
              price_cache := Some (read_prices quotes token_symbols, clock w + 60 * of_nat k)\<rparr>)
      else (Inr (zero_prices token_symbols),
            w\<lparr>sent := sent w @ replicate MAX_RETRIES (first_proxy proxies, GetPrices (map feed_id token_symbols)),
              clock := clock w + 180\<rparr>))"
proof -
  obtain p others where po: "proxies_or_none proxies = p # others" "proxies_dict p = first_proxy proxies"
    using proxies_or_none_first by blast
  let ?r = "\<lambda>i. net (length (sent w) + i) (first_proxy proxies) (GetPrices (map feed_id token_symbols))"
  consider "k = 0" | "k = 1" | "k = 2" | "k \<ge> 3" by arith
  then show ?thesis
  proof cases
    case 1
    then show ?thesis using assms(3)
      by (simp add: get_token_prices_miss [OF assms(1)] po upt3 numeral_3_eq_3 send_def sleep_def
            price_reply_def MAX_RETRIES_def)
  next
    case 2
    then have "?r 0 = HTTPError 429"
      using assms(2)[rule_format, of 0] by (simp add: price_reply_def)
    then show ?thesis using assms(3) 2
      by (simp add: get_token_prices_miss [OF assms(1)] po upt3 numeral_3_eq_3 send_def sleep_def
            price_reply_def MAX_RETRIES_def)
  next
    case 3
    then have "?r 0 = HTTPError 429" "?r 1 = HTTPError 429"
      using assms(2)[rule_format, of 0] assms(2)[rule_format, of 1]
      by (simp_all add: price_reply_def)
    then show ?thesis using assms(3) 3
      by (simp add: get_token_prices_miss [OF assms(1)] po upt3 numeral_3_eq_3 send_def sleep_def
            price_reply_def MAX_RETRIES_def)
  next
    case 4
    then have "?r 0 = HTTPError 429" "?r 1 = HTTPError 429" "?r 2 = HTTPError 429"
      using assms(2)[rule_format, of 0] assms(2)[rule_format, of 1] assms(2)[rule_format, of 2]
      by (simp_all add: price_reply_def)
    then show ?thesis using 4
      by (simp add: get_token_prices_miss [OF assms(1)] po upt3 numeral_3_eq_3 send_def sleep_def
            price_reply_def MAX_RETRIES_def)
  qed
qed

text \<open>
  C3 at three answers with status 429 followed by a price table that quotes SUI at 2.
  The claim has the call wait and come back with the price 2. The handler logs after
  each of the three answers that it will repeat the request in 60 seconds and sleeps the
  60 seconds, also after the third, when no attempt is left: the call returns after 180
  seconds with the price 0 for SUI, having sent three requests and not the fourth that
  it announced, and caches nothing. (The handler of the other request errors sleeps only
  when \<^verbatim>\<open>attempt < MAX_RETRIES - 1\<close>; this one has no such test.)
\<close>

theorem get_token_prices_gives_up_after_three_429:
  "get_token_prices (rate_limited 3 (PriceTable [(''sui'', Finite 2)])) [''SUI''] [] world0
     = (Inr [(''SUI'', 0)], world0\<lparr>sent := replicate 3 (None, GetPrices [''sui'']), clock := 180\<rparr>)
   \<and> rate_limited 3 (PriceTable [(''sui'', Finite 2)]) 3 None (GetPrices [''sui''])
       = Decoded (PriceTable [(''sui'', Finite 2)])
   \<and> read_prices [(''sui'', Finite 2)] [''SUI''] = [(''SUI'', Finite 2)]
   \<and> price_cache (snd (get_token_prices (rate_limited 3 (PriceTable [(''sui'', Finite 2)]))
                          [''SUI''] [] world0)) = None"
  by (simp add: get_token_prices_def proxies_or_none_def upt3 MAX_RETRIES_def send_def sleep_def
        proxies_dict_def rate_limited_def world0_def numeral_3_eq_3 zero_prices_def read_prices_def
        dict_comp_def feed_id_def dict_get_def symbol_to_id_def)

subsection \<open>C10: a failed price lookup is not cached\<close>

text \<open>
  C10. Let the price cache be stale or empty and let the lookup fail: after \<open>k\<close>
  answers that make the loop go on (connection errors, status 429) either an HTTP error
  with another status arrives (\<open>k < MAX_RETRIES\<close>) or the attempts are used up
  (\<open>k = MAX_RETRIES\<close>). Then \<^verbatim>\<open>get_token_prices\<close> returns the dictionary that gives 0
  to every requested symbol, the price cache is as before, and a later call, in any
  state with that cache and a clock that has not gone back, sends a request again.
\<close>

theorem get_token_prices_failure_not_cached:
  assumes stale: "\<not> cache_fresh w"
    and k: "k \<le> MAX_RETRIES"
    and retry: "\<forall>i<k. retryable (price_reply net w proxies token_symbols i)"
    and stop: "k < MAX_RETRIES \<longrightarrow>
                 (\<exists>c. c \<noteq> 429 \<and> price_reply net w proxies token_symbols k = HTTPError c)"
  shows "\<exists>w'. get_token_prices net token_symbols proxies w = (Inr (zero_prices token_symbols), w')
           \<and> (\<forall>s. map_of (zero_prices token_symbols) s
                    = (if s \<in> set token_symbols then Some 0 else None))
           \<and> price_cache w' = price_cache w
           \<and> (\<forall>net' (w''::world). price_cache w'' = price_cache w' \<and> clock w' \<le> clock w'' \<longrightarrow>
                 sent (snd (get_token_prices net' token_symbols proxies w'')) \<noteq> sent w'')"
proof -
  obtain w' where w': "get_token_prices net token_symbols proxies w = (Inr (zero_prices token_symbols), w')"
      "price_cache w' = price_cache w" "clock w \<le> clock w'"
    using get_token_prices_fail [OF stale k retry stop] by blast
  have zeros: "\<forall>s. map_of (zero_prices token_symbols) s
                    = (if s \<in> set token_symbols then Some 0 else None)"
    by (simp add: zero_prices_def map_of_dict_comp)
  have again: "\<forall>net' (w''::world). price_cache w'' = price_cache w' \<and> clock w' \<le> clock w'' \<longrightarrow>
                 sent (snd (get_token_prices net' token_symbols proxies w'')) \<noteq> sent w''"
  proof (intro allI impI)
    fix net' :: network and w'' :: world
    assume later: "price_cache w'' = price_cache w' \<and> clock w' \<le> clock w''"
    then have "\<not> cache_fresh w''"
      using stale_stays_stale [OF stale, of w''] w'(2,3) by simp
    then show "sent (snd (get_token_prices net' token_symbols proxies w'')) \<noteq> sent w''"
      by (rule get_token_prices_miss_sends)
  qed
  show ?thesis
    using w'(1,2) zeros again by blast
qed

theorem get_token_prices_failure_not_cached_witness:
  "(\<exists>w'. get_token_prices dead_network [''SUI''] [] world0 = (Inr (zero_prices [''SUI'']), w')
        \<and> price_cache w' = price_cache world0
        \<and> (\<forall>net' (w''::world). price_cache w'' = price_cache w' \<and> clock w' \<le> clock w'' \<longrightarrow>
              sent (snd (get_token_prices net' [''SUI''] [] w'')) \<noteq> sent w''))
   \<and> (\<exists>w'. get_token_prices (failing_with 500) [''SUI''] [] world0 = (Inr (zero_prices [''SUI'']), w')
        \<and> price_cache w' = price_cache world0)"
proof -
  have stale: "\<not> cache_fresh world0"
    by (simp add: cache_fresh_def world0_def)
  have k3: "(3::nat) \<le> MAX_RETRIES" and k0: "(0::nat) \<le> MAX_RETRIES"
    by (simp_all add: MAX_RETRIES_def)
  have retry3: "\<forall>i<3. retryable (price_reply dead_network world0 [] [''SUI''] i)"
    by (simp add: retryable_def price_reply_def dead_network_def)
  have stop3: "(3::nat) < MAX_RETRIES \<longrightarrow>
      (\<exists>c. c \<noteq> 429 \<and> price_reply dead_network world0 [] [''SUI''] 3 = HTTPError c)"
    by (simp add: MAX_RETRIES_def)
  have retry0: "\<forall>i<0. retryable (price_reply (failing_with 500) world0 [] [''SUI''] i)"
    by simp
  have stop0: "(0::nat) < MAX_RETRIES \<longrightarrow>
      (\<exists>c. c \<noteq> 429 \<and> price_reply (failing_with 500) world0 [] [''SUI''] 0 = HTTPError c)"
    by (simp add: price_reply_def failing_with_def)
  show ?thesis
    using get_token_prices_failure_not_cached [OF stale k3 retry3 stop3]
      get_token_prices_failure_not_cached [OF stale k0 retry0 stop0]
    by blast
qed

subsection \<open>The retry loops of the balance queries end with a result\<close>

lemma sui_balance_attempts_not_finished:
  "attempts \<noteq> [] \<Longrightarrow> MAX_RETRIES - 1 \<le> last attempts \<Longrightarrow>
   fst (sui_balance_attempts net a p attempts w) \<noteq> Finished"
proof (induction attempts arbitrary: w)
  case Nil
  then show ?case by simp
next
  case (Cons attempt rest)
  show ?case
  proof (cases "rest = []")
    case True
    then show ?thesis using Cons.prems
      by (auto simp: send_def return_value_def split: response.splits body.splits sum.splits)
  next
    case False
    then have "fst (sui_balance_attempts net a p rest w') \<noteq> Finished" for w'
      using Cons.IH [of w'] Cons.prems by simp
    then show ?thesis
      by (auto simp: send_def return_value_def split: response.splits body.splits sum.splits)
  qed
qed

lemma last_attempt: "[0..<MAX_RETRIES] \<noteq> [] \<and> MAX_RETRIES - 1 \<le> last [0..<MAX_RETRIES]"
  by (simp add: MAX_RETRIES_def upt3)

lemma staked_sui_attempts_not_finished:
  "attempts \<noteq> [] \<Longrightarrow> MAX_RETRIES - 1 \<le> last attempts \<Longrightarrow>
   fst (staked_sui_attempts net a p attempts w) \<noteq> Finished"
proof (induction attempts arbitrary: w)
  case Nil
  then show ?case by simp
next
  case (Cons attempt rest)
  show ?case
  proof (cases "rest = []")
    case True
    then show ?thesis using Cons.prems
      by (auto simp: send_def return_value_def split: response.splits body.splits sum.splits)
  next
    case False
    then have "fst (staked_sui_attempts net a p rest w') \<noteq> Finished" for w'
      using Cons.IH [of w'] Cons.prems by simp
    then show ?thesis
      by (auto simp: send_def return_value_def split: response.splits body.splits sum.splits)
  qed
qed

lemma token_balance_attempts_not_finished:
  "attempts \<noteq> [] \<Longrightarrow> MAX_RETRIES - 1 \<le> last attempts \<Longrightarrow>
   fst (token_balance_attempts net a t p d attempts w) \<noteq> Finished"
proof (induction attempts arbitrary: w)
  case Nil
  then show ?case by simp
next
  case (Cons attempt rest)
  show ?case
  proof (cases "rest = []")
    case True
    then show ?thesis using Cons.prems
      by (auto simp: send_def return_value_def split: response.splits body.splits sum.splits)
  next
    case False
    then have "fst (token_balance_attempts net a t p d rest w') \<noteq> Finished" for w'
      using Cons.IH [of w'] Cons.prems by simp
    then show ?thesis
      by (auto simp: send_def return_value_def split: response.splits body.splits sum.splits)
  qed
qed

subsection \<open>No function that sends requests runs off its end\<close>

lemma float_truediv_raise: "float_truediv x y = Inl e \<Longrightarrow> e = ZeroDivisionError"
  by (cases "(x, y)" rule: float_truediv.cases) (auto split: if_splits pyfloat.splits)

lemma decimals_attempts_raise:
  "fst (decimals_attempts net t p attempts w) = Raise e \<Longrightarrow> e = ReadError"
proof (induction attempts arbitrary: w)
  case Nil
  then show ?case by simp
next
  case (Cons attempt rest)
  let ?w1 = "w\<lparr>sent := sent w @ [(proxies_dict p, GetCoinMetadata t)]\<rparr>"
  show ?case
    using Cons.prems Cons.IH [of "sleep 2 ?w1"] Cons.IH [of ?w1]
    by (auto simp: send_def split: response.splits body.splits if_splits)
qed

lemma get_token_decimals_no_fall:
  "fst (get_token_decimals net t proxies w) \<noteq> Inl FellOffEnd"
proof -
  obtain p others where po: "proxies_or_none proxies = p # others"
    using proxies_or_none_first by blast
  obtain l w' where run: "decimals_attempts net t p [0..<MAX_RETRIES] w = (l, w')"
    by (cases "decimals_attempts net t p [0..<MAX_RETRIES] w")
  have "l = Raise e \<Longrightarrow> e = ReadError" for e
    using decimals_attempts_raise [of net t p "[0..<MAX_RETRIES]" w e] run by simp
  then show ?thesis
    using run po by (cases l) (auto simp: get_token_decimals_def split: option.splits)
qed

lemma prices_attempts_raise:
  "fst (prices_attempts net ts p attempts w) = Raise e \<Longrightarrow> e = ReadError"
proof (induction attempts arbitrary: w)
  case Nil
  then show ?case by simp
next
  case (Cons attempt rest)
  let ?w1 = "w\<lparr>sent := sent w @ [(proxies_dict p, GetPrices (map feed_id ts))]\<rparr>"
  show ?case
    using Cons.prems Cons.IH [of "sleep 2 ?w1"] Cons.IH [of "sleep 60 ?w1"] Cons.IH [of ?w1]
    by (auto simp: send_def split: response.splits body.splits if_splits)
qed

lemma get_token_prices_no_fall:
  "fst (get_token_prices net ts proxies w) \<noteq> Inl FellOffEnd"
proof -
  obtain p others where po: "proxies_or_none proxies = p # others"
    using proxies_or_none_first by blast
  obtain l w' where run: "prices_attempts net ts p [0..<MAX_RETRIES] w = (l, w')"
    by (cases "prices_attempts net ts p [0..<MAX_RETRIES] w")
  have "l = Raise e \<Longrightarrow> e = ReadError" for e
    using prices_attempts_raise [of net ts p "[0..<MAX_RETRIES]" w e] run by simp
  then show ?thesis
    using run po by (cases l) (auto simp: get_token_prices_def split: option.splits)
qed

lemma sui_balance_attempts_raise:
  "fst (sui_balance_attempts net a p attempts w) = Raise e \<Longrightarrow> e \<noteq> FellOffEnd"
proof (induction attempts arbitrary: w)
  case Nil
  then show ?case by simp
next
  case (Cons attempt rest)
  let ?w1 = "w\<lparr>sent := sent w @ [(proxies_dict p, GetBalance a)]\<rparr>"
  show ?case
    using Cons.prems Cons.IH [of "sleep 2 ?w1"]
    by (auto simp: send_def return_value_def int_truediv_def int_to_float_def div_power_of_ten_def
          dest: float_truediv_raise
          split: response.splits body.splits if_splits sum.splits pyfloat.splits)
qed

lemma get_sui_balance_no_fall:
  "fst (get_sui_balance net a p w) \<noteq> Inl FellOffEnd"
proof -
  obtain l w' where run: "sui_balance_attempts net a p [0..<MAX_RETRIES] w = (l, w')"
    by (cases "sui_balance_attempts net a p [0..<MAX_RETRIES] w")
  have "l \<noteq> Finished"
    using sui_balance_attempts_not_finished [of "[0..<MAX_RETRIES]" net a p w] last_attempt run
    by simp
  moreover have "l = Raise e \<Longrightarrow> e \<noteq> FellOffEnd" for e
    using sui_balance_attempts_raise [of net a p "[0..<MAX_RETRIES]" w e] run by simp
  ultimately show ?thesis
    using run by (cases l) (auto simp: get_sui_balance_def)
qed

lemma staked_sui_attempts_raise:
  "fst (staked_sui_attempts net a p attempts w) = Raise e \<Longrightarrow> e \<noteq> FellOffEnd"
proof (induction attempts arbitrary: w)
  case Nil
  then show ?case by simp
next
  case (Cons attempt rest)
  let ?w1 = "w\<lparr>sent := sent w @ [(proxies_dict p, GetStakes a)]\<rparr>"
  show ?case
    using Cons.prems Cons.IH [of "sleep 2 ?w1"]
    by (auto simp: send_def return_value_def int_truediv_def int_to_float_def div_power_of_ten_def
          dest: float_truediv_raise
          split: response.splits body.splits if_splits sum.splits pyfloat.splits)
qed

lemma get_staked_sui_no_fall:
  "fst (get_staked_sui net a p w) \<noteq> Inl FellOffEnd"
proof -
  obtain l w' where run: "staked_sui_attempts net a p [0..<MAX_RETRIES] w = (l, w')"
    by (cases "staked_sui_attempts net a p [0..<MAX_RETRIES] w")
  have "l \<noteq> Finished"
    using staked_sui_attempts_not_finished [of "[0..<MAX_RETRIES]" net a p w] last_attempt run
    by simp
  moreover have "l = Raise e \<Longrightarrow> e \<noteq> FellOffEnd" for e
    using staked_sui_attempts_raise [of net a p "[0..<MAX_RETRIES]" w e] run by simp
  ultimately show ?thesis
    using run by (cases l) (auto simp: get_staked_sui_def)
qed

lemma token_balance_attempts_raise:
  "fst (token_balance_attempts net a t p d attempts w) = Raise e \<Longrightarrow> e \<noteq> FellOffEnd"
proof (induction attempts arbitrary: w)
  case Nil
  then show ?case by simp
next
  case (Cons attempt rest)
  let ?w1 = "w\<lparr>sent := sent w @ [(proxies_dict p, GetTokenBalance a t)]\<rparr>"
  show ?case
    using Cons.prems Cons.IH [of "sleep 2 ?w1"]
    by (auto simp: send_def return_value_def int_truediv_def int_to_float_def div_power_of_ten_def
          dest: float_truediv_raise
          split: response.splits body.splits if_splits sum.splits pyfloat.splits)
qed

lemma get_token_balance_no_fall:
  "fst (get_token_balance net a t p w) \<noteq> Inl FellOffEnd"
proof -
  define d where "d = (case decimals_cache w t of Some d \<Rightarrow> d | None \<Rightarrow> 9)"
  obtain l w' where run: "token_balance_attempts net a t p d [0..<MAX_RETRIES] w = (l, w')"
    by (cases "token_balance_attempts net a t p d [0..<MAX_RETRIES] w")
  have "l \<noteq> Finished"
    using token_balance_attempts_not_finished [of "[0..<MAX_RETRIES]" net a t p d w] last_attempt run
    by simp
  moreover have "l = Raise e \<Longrightarrow> e \<noteq> FellOffEnd" for e
    using token_balance_attempts_raise [of net a t p d "[0..<MAX_RETRIES]" w e] run by simp
  ultimately show ?thesis
    using run by (cases l) (auto simp: get_token_balance_def d_def)
qed

subsection \<open>The number of failures a lookup survives\<close>

text \<open>
  What the loop over the proxies amounts to, for a network that fails \<open>N\<close> times and
  then answers with the precision \<open>d\<close>: the lookup returns and stores \<open>d\<close> when
  \<open>N < MAX_RETRIES\<close>, and returns the fallback 9 and stores nothing otherwise,
  whatever the list of proxies.
\<close>

theorem get_token_decimals_succeeds_iff:
  assumes "decimals_cache w token_type = None" and "sent w = []"
  shows "fst (get_token_decimals (fails_then N (Number d)) token_type proxies w)
           = Inr (if N < MAX_RETRIES then d else 9)
       \<and> decimals_cache (snd (get_token_decimals (fails_then N (Number d)) token_type proxies w))
             token_type
           = (if N < MAX_RETRIES then Some d else None)"
proof (cases "N < MAX_RETRIES")
  case True
  have errs: "\<forall>i<N. request_error (metadata_reply (fails_then N (Number d)) w proxies token_type i)"
    using assms(2) by (simp add: metadata_reply_def fails_then_def request_error_def)
  have answer: "metadata_reply (fails_then N (Number d)) w proxies token_type N = Decoded (Number d)"
    using assms(2) by (simp add: metadata_reply_def fails_then_def)
  obtain w' where "get_token_decimals (fails_then N (Number d)) token_type proxies w = (Inr d, w')"
    "decimals_cache w' = (decimals_cache w)(token_type \<mapsto> d)"
    using get_token_decimals_success [OF assms(1) True errs answer, of d] by blast
  then show ?thesis using True by simp
next
  case False
  have errs: "\<forall>i<MAX_RETRIES. request_error (metadata_reply (fails_then N (Number d)) w proxies token_type i)"
    using assms(2) False by (simp add: metadata_reply_def fails_then_def request_error_def)
  show ?thesis
    using get_token_decimals_fail [OF assms(1) errs] False assms(1) by simp
qed

theorem get_token_decimals_succeeds_iff_witness:
  "fst (get_token_decimals (fails_then 2 (Number 6)) ''T'' [''p1'', ''p2''] world0) = Inr 6
   \<and> fst (get_token_decimals (fails_then 3 (Number 6)) ''T'' [''p1'', ''p2''] world0) = Inr 9
   \<and> fst (get_token_decimals (fails_then 5 (Number 6)) ''T'' [''p1'', ''p2''] world0) = Inr 9"
proof -
  have miss: "decimals_cache world0 ''T'' = None" and start: "sent world0 = []"
    by (simp_all add: world0_def)
  show ?thesis
    using get_token_decimals_succeeds_iff [OF miss start, of 2 6 "[''p1'', ''p2'']"]
      get_token_decimals_succeeds_iff [OF miss start, of 3 6 "[''p1'', ''p2'']"]
      get_token_decimals_succeeds_iff [OF miss start, of 5 6 "[''p1'', ''p2'']"]
    by (simp add: MAX_RETRIES_def)
qed

end
